theory Spec2Isabelle
  imports Main
begin

section \<open>JavaScript strings\<close>

text \<open>
  A JavaScript string is a sequence of UTF-16 code units. Every string of the program is
  modelled as the list of its code units, each a natural number below 65536. The source
  files are NFC-encoded, so an accented letter of a literal is one code unit
  (\<open>0xE3\<close> for a with tilde, \<open>0xE7\<close> for c with cedilla, and so on).
\<close>

type_synonym jsstring = "nat list"

type_synonym bytes = "nat list"

definition ascii :: "string \<Rightarrow> jsstring" where
  "ascii s = map of_char s"

text \<open>\<open>String.prototype.startsWith\<close> and \<open>String.prototype.includes\<close> (\<open>includesStr\<close>).\<close>

fun startsWith :: "jsstring \<Rightarrow> jsstring \<Rightarrow> bool" where
  "startsWith s [] = True"
| "startsWith [] (p # ps) = False"
| "startsWith (c # cs) (p # ps) = (c = p \<and> startsWith cs ps)"

fun includesStr :: "jsstring \<Rightarrow> jsstring \<Rightarrow> bool" where
  "includesStr [] t = (t = [])"
| "includesStr (c # cs) t = (startsWith (c # cs) t \<or> includesStr cs t)"

text \<open>
  \<open>String.prototype.trim\<close> removes the code units of WhiteSpace and LineTerminator
  from both ends.
\<close>

definition isWhiteSpace :: "nat \<Rightarrow> bool" where
  "isWhiteSpace c =
     ((0x09 \<le> c \<and> c \<le> 0x0D) \<or> c = 0x20 \<or> c = 0xA0 \<or> c = 0x1680
      \<or> (0x2000 \<le> c \<and> c \<le> 0x200A) \<or> c = 0x2028 \<or> c = 0x2029 \<or> c = 0x202F
      \<or> c = 0x205F \<or> c = 0x3000 \<or> c = 0xFEFF)"

definition trim :: "jsstring \<Rightarrow> jsstring" where
  "trim s = rev (dropWhile isWhiteSpace (rev (dropWhile isWhiteSpace s)))"

text \<open>
  \<open>s.split(' ')\<close> cuts at every single space \<open>U+0020\<close> and at nothing else; the empty
  string gives one empty piece. \<open>xs.join(' ')\<close> is its inverse.
\<close>

fun splitSpace :: "jsstring \<Rightarrow> jsstring list" where
  "splitSpace [] = [[]]"
| "splitSpace (c # cs) =
     (if c = 0x20 then [] # splitSpace cs
      else (case splitSpace cs of [] \<Rightarrow> [[c]] | w # ws \<Rightarrow> (c # w) # ws))"

fun joinSpace :: "jsstring list \<Rightarrow> jsstring" where
  "joinSpace [] = []"
| "joinSpace [w] = w"
| "joinSpace (w # v # ws) = w @ [0x20] @ joinSpace (v # ws)"

text \<open>The first element of a split, \<open>s.split(" ")[0]\<close>; a split is never empty.\<close>

definition firstPiece :: "jsstring list \<Rightarrow> jsstring" where
  "firstPiece ws = (case ws of [] \<Rightarrow> [] | w # _ \<Rightarrow> w)"

text \<open>\<open>s.replace(/"/g, '""')\<close> and \<open>s.replace(/'/g, "\\'")\<close>.\<close>

definition doubleQuotes :: "jsstring \<Rightarrow> jsstring" where
  "doubleQuotes s = concat (map (\<lambda>c. if c = 0x22 then [0x22, 0x22] else [c]) s)"

definition escapeSingleQuotes :: "jsstring \<Rightarrow> jsstring" where
  "escapeSingleQuotes s = concat (map (\<lambda>c. if c = 0x27 then [0x5C, 0x27] else [c]) s)"

text \<open>A non-negative integer inside a template literal is printed in decimal.\<close>

fun showNat :: "nat \<Rightarrow> jsstring" where
  "showNat n = (if n < 10 then [0x30 + n] else showNat (n div 10) @ [0x30 + n mod 10])"

declare showNat.simps [simp del]

text \<open>
  \<open>Array.prototype.findIndex\<close>: the index of the first element that satisfies the
  predicate, and \<open>-1\<close> when there is none.
\<close>

fun findIndex :: "('a \<Rightarrow> bool) \<Rightarrow> 'a list \<Rightarrow> int" where
  "findIndex P [] = - 1"
| "findIndex P (x # xs) =
     (if P x then 0 else (let r = findIndex P xs in if r = - 1 then - 1 else r + 1))"

text \<open>\<open>v ?? ""\<close> on a cell that may be \<open>null\<close> or \<open>undefined\<close>.\<close>

definition orEmpty :: "jsstring option \<Rightarrow> jsstring" where
  "orEmpty v = (case v of None \<Rightarrow> [] | Some s \<Rightarrow> s)"

section \<open>The Unicode tables of the runtime\<close>

text \<open>
  \<open>normalize("NFD")\<close>, \<open>toLowerCase\<close>, \<open>toUpperCase\<close> and Node's \<open>path.basename\<close>
  are built-ins of the runtime, driven by the Unicode tables. They are parameters of the
  model: every general theorem below holds for any choice of them.
\<close>

record runtime =
  normalizeNFD :: "jsstring \<Rightarrow> jsstring"
  toLowerCase :: "jsstring \<Rightarrow> jsstring"
  toUpperCase :: "jsstring \<Rightarrow> jsstring"
  basename :: "jsstring \<Rightarrow> jsstring"

text \<open>
  For the examples, the tables are written out on the range \<open>U+0000\<close> to \<open>U+00FF\<close>
  (Basic Latin and Latin-1 Supplement, which holds every letter of Portuguese). On a string
  of that range these functions are the Unicode ones; a code unit above the range is left
  as it is, which is not what the runtime does, so the examples stay within the range.
  The canonical decomposition of \<open>0xC0 + k\<close> is a capital base letter and a combining
  mark; that of \<open>0xE0 + k\<close> is the small base letter and the same mark.
\<close>

definition latin1_decomposition :: "(nat \<times> nat) option list" where
  "latin1_decomposition =
     [Some (0x41, 0x300), Some (0x41, 0x301), Some (0x41, 0x302), Some (0x41, 0x303),
      Some (0x41, 0x308), Some (0x41, 0x30A), None, Some (0x43, 0x327),
      Some (0x45, 0x300), Some (0x45, 0x301), Some (0x45, 0x302), Some (0x45, 0x308),
      Some (0x49, 0x300), Some (0x49, 0x301), Some (0x49, 0x302), Some (0x49, 0x308),
      None, Some (0x4E, 0x303), Some (0x4F, 0x300), Some (0x4F, 0x301),
      Some (0x4F, 0x302), Some (0x4F, 0x303), Some (0x4F, 0x308), None,
      None, Some (0x55, 0x300), Some (0x55, 0x301), Some (0x55, 0x302),
      Some (0x55, 0x308), Some (0x59, 0x301), None]"

definition latin1_nfd_unit :: "nat \<Rightarrow> jsstring" where
  "latin1_nfd_unit c =
     (if 0xC0 \<le> c \<and> c \<le> 0xDE then
        (case latin1_decomposition ! (c - 0xC0) of None \<Rightarrow> [c] | Some (b, m) \<Rightarrow> [b, m])
      else if 0xE0 \<le> c \<and> c \<le> 0xFE then
        (case latin1_decomposition ! (c - 0xE0) of None \<Rightarrow> [c] | Some (b, m) \<Rightarrow> [b + 0x20, m])
      else if c = 0xFF then [0x79, 0x308]
      else [c])"

definition latin1_lower_unit :: "nat \<Rightarrow> nat" where
  "latin1_lower_unit c =
     (if 0x41 \<le> c \<and> c \<le> 0x5A then c + 0x20
      else if 0xC0 \<le> c \<and> c \<le> 0xDE \<and> c \<noteq> 0xD7 then c + 0x20
      else c)"

definition latin1_upper_unit :: "nat \<Rightarrow> jsstring" where
  "latin1_upper_unit c =
     (if 0x61 \<le> c \<and> c \<le> 0x7A then [c - 0x20]
      else if 0xE0 \<le> c \<and> c \<le> 0xFE \<and> c \<noteq> 0xF7 then [c - 0x20]
      else if c = 0xB5 then [0x39C]
      else if c = 0xDF then [0x53, 0x53]
      else if c = 0xFF then [0x178]
      else [c])"

text \<open>POSIX \<open>path.basename\<close>: trailing slashes go, then what follows the last slash stays.\<close>

definition posix_basename :: "jsstring \<Rightarrow> jsstring" where
  "posix_basename p =
     rev (takeWhile (\<lambda>c. c \<noteq> 0x2F) (dropWhile (\<lambda>c. c = 0x2F) (rev p)))"

definition latin1 :: runtime where
  "latin1 =
     \<lparr> normalizeNFD = (\<lambda>s. concat (map latin1_nfd_unit s)),
       toLowerCase = map latin1_lower_unit,
       toUpperCase = (\<lambda>s. concat (map latin1_upper_unit s)),
       basename = posix_basename \<rparr>"

section \<open>Configuration (config.ts)\<close>

text \<open>
  \<open>GOOGLE_CONFIG\<close> and \<open>SPREADSHEET_CONFIG\<close> in one record. The identifiers, the sheet
  names, the row bounds and the formula separator come from the environment; the column
  letters and the header row are literals of the source, kept as fields so that the
  address arithmetic can be stated for any start letter.
\<close>

record config =
  spreadsheetId :: jsstring
  folderId :: jsstring
  refreshToken :: jsstring
  sheetName :: jsstring
  mainSheetName :: jsstring
  nameColumn :: jsstring
  nameStartRow :: nat
  nameEndRow :: nat
  headerRow :: nat
  monthStartColumn :: jsstring
  monthEndColumn :: jsstring
  formulaSeparator :: jsstring

text \<open>The getters \<open>nameRange\<close> (as in \<open>A2:A29\<close>) and \<open>headerRange\<close> (as in \<open>B1:L1\<close>).\<close>

definition nameRange :: "config \<Rightarrow> jsstring" where
  "nameRange cfg =
     nameColumn cfg @ showNat (nameStartRow cfg) @ ascii '':'' @
     nameColumn cfg @ showNat (nameEndRow cfg)"

definition headerRange :: "config \<Rightarrow> jsstring" where
  "headerRange cfg =
     monthStartColumn cfg @ showNat (headerRow cfg) @ ascii '':'' @
     monthEndColumn cfg @ showNat (headerRow cfg)"

text \<open>
  The configuration with every default of config.ts, and \<open>sheet-1\<close>, \<open>folder-1\<close>,
  \<open>token-1\<close> for the three required identifiers.
\<close>

definition defaultConfig :: config where
  "defaultConfig =
     \<lparr> spreadsheetId = ascii ''sheet-1'', folderId = ascii ''folder-1'',
       refreshToken = ascii ''token-1'',
       sheetName = ascii ''Comprovantes'', mainSheetName = ascii ''Main'',
       nameColumn = ascii ''A'', nameStartRow = 2, nameEndRow = 29, headerRow = 1,
       monthStartColumn = ascii ''B'', monthEndColumn = ascii ''L'',
       formulaSeparator = ascii '';'' \<rparr>"

section \<open>Name Normalizer and Tabular Locator (planilha.ts)\<close>

text \<open>
  \<open>normalizeText\<close>: decompose, delete the combining marks \<open>U+0300\<close> to \<open>U+036F\<close>,
  lower-case, trim.
\<close>

definition isCombiningMark :: "nat \<Rightarrow> bool" where
  "isCombiningMark c = (0x300 \<le> c \<and> c \<le> 0x36F)"

definition normalizeText :: "runtime \<Rightarrow> jsstring \<Rightarrow> jsstring" where
  "normalizeText rt text =
     trim (toLowerCase rt (filter (\<lambda>c. \<not> isCombiningMark c) (normalizeNFD rt text)))"

text \<open>
  \<open>getColumnFromOffset\<close>: \<open>charCodeAt(0)\<close> of the start column plus the offset, through
  \<open>String.fromCharCode\<close>, which reduces its argument modulo \<open>2^16\<close>. \<open>charCodeAt(0)\<close>
  of the empty string is \<open>NaN\<close>, which \<open>fromCharCode\<close> turns into the code unit 0.
\<close>

definition getColumnFromOffset :: "config \<Rightarrow> int \<Rightarrow> jsstring" where
  "getColumnFromOffset cfg offset =
     (case monthStartColumn cfg of
        [] \<Rightarrow> [0]
      | startColCode # _ \<Rightarrow> [nat ((int startColCode + offset) mod 65536)])"

text \<open>
  The three lookups, named after the variables that hold their results. \<open>nomeIndex\<close> is
  the row lookup of both \<open>planilha\<close> and \<open>marcarComprovanteNaAbaMain\<close>; \<open>colIndex\<close> is the
  column lookup of \<open>planilha\<close> on the sheet of receipts; \<open>mainMonthIndex\<close> is the column
  lookup of \<open>marcarComprovanteNaAbaMain\<close> on the main sheet.
\<close>

definition nomeIndex :: "runtime \<Rightarrow> jsstring option list \<Rightarrow> jsstring \<Rightarrow> int" where
  "nomeIndex rt names nome =
     (let nomeNormalizado = normalizeText rt nome
      in findIndex (\<lambda>n. normalizeText rt (orEmpty n) = nomeNormalizado) names)"

definition colIndex :: "jsstring option list \<Rightarrow> jsstring \<Rightarrow> int" where
  "colIndex headers mes =
     findIndex (\<lambda>h. includesStr (orEmpty h) mes \<and> includesStr (orEmpty h) (ascii ''Comp'')) headers"

definition mainMonthIndex :: "runtime \<Rightarrow> jsstring option list \<Rightarrow> jsstring \<Rightarrow> int" where
  "mainMonthIndex rt mainHeaders mes =
     findIndex (\<lambda>h. includesStr (normalizeText rt (orEmpty h)) (normalizeText rt mes)) mainHeaders"

section \<open>Name capitalisation and file name (processPixReceipt.ts)\<close>

text \<open>\<open>word.charAt(0).toUpperCase() + word.slice(1)\<close>.\<close>

definition capitalizeWord :: "runtime \<Rightarrow> jsstring \<Rightarrow> jsstring" where
  "capitalizeWord rt word = toUpperCase rt (take 1 word) @ drop 1 word"

definition capitalizeName :: "runtime \<Rightarrow> jsstring \<Rightarrow> jsstring" where
  "capitalizeName rt name =
     joinSpace (map (capitalizeWord rt) (splitSpace (toLowerCase rt name)))"

text \<open>
  Step 4 of \<open>processPixReceipt\<close>: first name, abbreviated month, extension with its dot.
\<close>

definition nomeFormatado :: "jsstring \<Rightarrow> jsstring \<Rightarrow> jsstring \<Rightarrow> jsstring" where
  "nomeFormatado nomeCapitalizado mes extension =
     (let primeiroNome = firstPiece (splitSpace nomeCapitalizado);
          mesAbrev = take 3 mes;
          ext = (if startsWith extension (ascii ''.'') then extension
                 else ascii ''.'' @ extension)
      in primeiroNome @ ascii ''_'' @ mesAbrev @ ext)"

section \<open>The world outside the program\<close>

text \<open>
  What a \<open>throw\<close> carries: an \<open>Error\<close> object with its message; or any other value
  that \<open>String(error)\<close> converts, kept as the string it makes of it; or a value that
  \<open>String(error)\<close> cannot convert (an object without \<open>toString\<close> and \<open>valueOf\<close>, such
  as \<open>Object.create(null)\<close>, or one whose \<open>toString\<close> throws), for which the conversion
  itself throws.
\<close>

datatype thrown = ErrorObj jsstring | NonError jsstring | Unprintable

text \<open>The value of a \<open>values.update\<close>: the formula \<open>[[hyperlink]]\<close> or the mark \<open>[[true]]\<close>.\<close>

datatype written = Formula jsstring | Mark bool

record driveFile =
  file_id :: "jsstring option"
  file_name :: jsstring
  file_webViewLink :: "jsstring option"
  file_parents :: "jsstring list"
  file_trashed :: bool
  file_mimeType :: jsstring
  file_body :: bytes

text \<open>
  Every call that leaves the program is logged, in order: the chat completion of Groq with
  the image and its MIME type, the local disk, the two Sheets calls with spreadsheet id and
  range, the two Drive calls (\<open>files.list\<close> with its query \<open>q\<close>, \<open>files.create\<close>
  with name, parents, MIME type and body).
\<close>

datatype call =
    GroqChat bytes jsstring
  | ReadFile jsstring
  | SheetsGet jsstring jsstring
  | SheetsUpdate jsstring jsstring written
  | DriveList jsstring
  | DriveCreate jsstring "jsstring list" jsstring bytes

text \<open>
  \<open>data.values\<close> of a \<open>values.get\<close>: absent, or rows of cells; a cell is a formatted
  string, or \<open>null\<close>.
\<close>

type_synonym sheetValues = "jsstring option list list option"

text \<open>
  The world: the content of the first choice the vision model gives for an image and MIME
  type (\<open>choices[0]?.message?.content\<close>, possibly absent); the month name the clock
  gives in \<open>pt-BR\<close>; the local disk; the spreadsheet, addressed by range; the files of
  Drive; the id and link Drive assigns to its next file (indexed by the number of files it
  holds); for the n-th call of the log, whether the service throws instead of answering;
  and the log.
\<close>

record world =
  groqAnswer :: "bytes \<Rightarrow> jsstring \<Rightarrow> jsstring option"
  monthLong :: jsstring
  disk :: "jsstring \<Rightarrow> thrown + bytes"
  cells :: "jsstring \<Rightarrow> sheetValues"
  files :: "driveFile list"
  assigned :: "nat \<Rightarrow> jsstring option \<times> jsstring option"
  faults :: "nat \<Rightarrow> thrown option"
  calls :: "call list"

text \<open>
  An \<open>async\<close> computation takes the world and returns it changed, with either the value
  it resolves to (\<open>Inr\<close>) or what it throws (\<open>Inl\<close>).
\<close>

type_synonym 'a io = "world \<Rightarrow> (thrown + 'a) \<times> world"

definition returnIO :: "'a \<Rightarrow> 'a io" where
  "returnIO x w = (Inr x, w)"

definition throwIO :: "thrown \<Rightarrow> 'a io" where
  "throwIO e w = (Inl e, w)"

definition bindIO :: "'a io \<Rightarrow> ('a \<Rightarrow> 'b io) \<Rightarrow> 'b io" where
  "bindIO m f w = (case m w of (Inl e, w') \<Rightarrow> (Inl e, w') | (Inr x, w') \<Rightarrow> f x w')"

text \<open>
  \<open>await Promise.all([a, b])\<close>: both requests are issued, in order, whatever the first
  one does; the result is rejected when either is. When both are rejected the model
  surfaces the first one's error (the runtime surfaces whichever settles first).
\<close>

definition promiseAll2 :: "'a io \<Rightarrow> 'b io \<Rightarrow> ('a \<times> 'b) io" where
  "promiseAll2 a b w =
     (case a w of (ra, w1) \<Rightarrow>
        (case b w1 of (rb, w2) \<Rightarrow>
           (case ra of
              Inl e \<Rightarrow> (Inl e, w2)
            | Inr x \<Rightarrow> (case rb of Inl e \<Rightarrow> (Inl e, w2) | Inr y \<Rightarrow> (Inr (x, y), w2)))))"

text \<open>
  A request to a remote service: it is logged; then the service throws, if the world
  says so for this position of the log, and otherwise answers. A request that throws
  leaves the service as it was.
\<close>

definition request :: "call \<Rightarrow> (world \<Rightarrow> 'a \<times> world) \<Rightarrow> 'a io" where
  "request c serve w =
     (let w1 = w\<lparr>calls := calls w @ [c]\<rparr>
      in case faults w (length (calls w)) of
           Some e \<Rightarrow> (Inl e, w1)
         | None \<Rightarrow> (case serve w1 of (x, w2) \<Rightarrow> (Inr x, w2)))"

definition readFile :: "jsstring \<Rightarrow> bytes io" where
  "readFile path w = (disk w path, w\<lparr>calls := calls w @ [ReadFile path]\<rparr>)"

section \<open>Receipt Classifier (read_image.ts)\<close>

text \<open>The sentinel, \<open>N\<close>, a with tilde, \<open>o\<close>, space, e with acute, space, \<open>PIX\<close>.\<close>

definition naoEPix :: jsstring where
  "naoEPix = ascii ''N'' @ [0xE3] @ ascii ''o '' @ [0xE9] @ ascii '' PIX''"

text \<open>The image to classify: the path of a file, or the bytes in memory.\<close>

datatype imageInput = ImagePath jsstring | ImageBuffer bytes

definition groqChat :: "bytes \<Rightarrow> jsstring \<Rightarrow> jsstring option io" where
  "groqChat img mimeType = request (GroqChat img mimeType) (\<lambda>w. (groqAnswer w img mimeType, w))"

text \<open>
  \<open>read_image\<close>: load the image, ask the model, answer its trimmed content, or the
  sentinel when there is none. An \<open>Error\<close> caught on the way is thrown again, reworded,
  when its lower-cased message speaks of a missing file, of the API or of the network; any
  other failure is answered with the sentinel.
\<close>

definition read_image :: "runtime \<Rightarrow> imageInput \<Rightarrow> jsstring \<Rightarrow> jsstring io" where
  "read_image rt imageInput mimeType w =
     (case bindIO
             (case imageInput of ImagePath path \<Rightarrow> readFile path | ImageBuffer b \<Rightarrow> returnIO b)
             (\<lambda>img. groqChat img mimeType) w of
        (Inr content, w') \<Rightarrow>
          (Inr (case content of None \<Rightarrow> naoEPix | Some c \<Rightarrow> trim c), w')
      | (Inl (ErrorObj message), w') \<Rightarrow>
          (let msg = toLowerCase rt message
           in if includesStr msg (ascii ''enoent'') \<or> includesStr msg (ascii ''not found'')
              then (Inl (ErrorObj
                      (ascii ''Arquivo n'' @ [0xE3] @ ascii ''o encontrado: '' @
                       (case imageInput of ImagePath path \<Rightarrow> path
                        | ImageBuffer _ \<Rightarrow> ascii ''[buffer-em-memoria]''))), w')
              else if includesStr msg (ascii ''api'') \<or> includesStr msg (ascii ''401'')
                      \<or> includesStr msg (ascii ''403'')
              then (Inl (ErrorObj (ascii ''Erro na API Groq: '' @ message)), w')
              else if includesStr msg (ascii ''network'') \<or> includesStr msg (ascii ''econnrefused'')
              then (Inl (ErrorObj (ascii ''Erro de rede ao conectar Groq: '' @ message)), w')
              else (Inr naoEPix, w'))
      | (Inl (NonError _), w') \<Rightarrow> (Inr naoEPix, w')
      | (Inl Unprintable, w') \<Rightarrow> (Inr naoEPix, w'))"

section \<open>Sheets and Drive\<close>

text \<open>
  Sheets. A cell written with \<open>USER_ENTERED\<close> is kept as the text that was entered
  (\<open>TRUE\<close> for the mark); ranges are independent addresses.
\<close>

definition entered :: "written \<Rightarrow> jsstring" where
  "entered v = (case v of Formula f \<Rightarrow> f | Mark b \<Rightarrow> (if b then ascii ''TRUE'' else ascii ''FALSE''))"

definition sheetsGet :: "config \<Rightarrow> jsstring \<Rightarrow> sheetValues io" where
  "sheetsGet cfg rng = request (SheetsGet (spreadsheetId cfg) rng) (\<lambda>w. (cells w rng, w))"

definition sheetsUpdate :: "config \<Rightarrow> jsstring \<Rightarrow> written \<Rightarrow> unit io" where
  "sheetsUpdate cfg rng v =
     request (SheetsUpdate (spreadsheetId cfg) rng v)
       (\<lambda>w. ((), w\<lparr>cells := (cells w)(rng := Some [[Some (entered v)]])\<rparr>))"

text \<open>
  Drive. The query \<open>q\<close> of \<open>files.list\<close> is the string the source builds (\<open>0x27\<close> is
  the single quote): the file name, with each single quote replaced by backslash and
  quote, between quotes; the folder id between quotes.
\<close>

definition driveQuery :: "config \<Rightarrow> jsstring \<Rightarrow> jsstring" where
  "driveQuery cfg fileName =
     ascii ''name='' @ [0x27] @ escapeSingleQuotes fileName @ [0x27] @ ascii '' and '' @
     [0x27] @ folderId cfg @ [0x27] @ ascii '' in parents and trashed=false''"

text \<open>
  The query string is all that Drive receives of the search, and Drive answers from what
  it reads there. In the query language of Drive a string stands between single quotes,
  and inside it a backslash (\<open>0x5C\<close>) escapes a quote or a backslash: backslash and quote
  stand for a quote, two backslashes for one backslash. \<open>quoted\<close> reads a string from
  after its opening quote and gives the text it denotes and what follows the closing
  quote; it gives nothing when the string is not closed or a backslash escapes anything
  else. \<open>parseQuery\<close> reads the one form of query this program sends, a name, a parent
  folder and \<open>trashed=false\<close>; any other text is not a query, and Drive answers it with
  an error (\<open>400 Invalid Value\<close>).
\<close>

fun quoted :: "jsstring \<Rightarrow> (jsstring \<times> jsstring) option" where
  "quoted [] = None"
| "quoted (c # cs) =
     (if c = 0x27 then Some ([], cs)
      else if c = 0x5C then
        (case cs of
           [] \<Rightarrow> None
         | d # ds \<Rightarrow>
             (if d = 0x27 \<or> d = 0x5C
              then (case quoted ds of None \<Rightarrow> None | Some (s, r) \<Rightarrow> Some (d # s, r))
              else None))
      else (case quoted cs of None \<Rightarrow> None | Some (s, r) \<Rightarrow> Some (c # s, r)))"

definition parseQuery :: "jsstring \<Rightarrow> (jsstring \<times> jsstring) option" where
  "parseQuery q =
     (if startsWith q (ascii ''name='' @ [0x27])
      then (case quoted (drop 6 q) of
              None \<Rightarrow> None
            | Some (name, r1) \<Rightarrow>
                (if startsWith r1 (ascii '' and '' @ [0x27])
                 then (case quoted (drop 6 r1) of
                         None \<Rightarrow> None
                       | Some (folder, r2) \<Rightarrow>
                           (if r2 = ascii '' in parents and trashed=false''
                            then Some (name, folder) else None))
                 else None))
      else None)"

definition msgInvalidQuery :: jsstring where
  "msgInvalidQuery = ascii ''Invalid Value''"

text \<open>
  \<open>files.list\<close>: the files whose name is the name the query denotes, in the folder it
  denotes, not in the bin; \<open>pageSize: 1\<close> keeps the first of them. \<open>files.create\<close> adds
  a file and answers with the id and link assigned to it.
\<close>

definition namedIn :: "jsstring \<Rightarrow> jsstring \<Rightarrow> driveFile \<Rightarrow> bool" where
  "namedIn name folder f =
     (file_name f = name \<and> folder \<in> set (file_parents f) \<and> \<not> file_trashed f)"

definition driveSearch :: "jsstring \<Rightarrow> world \<Rightarrow> thrown + driveFile list" where
  "driveSearch q w =
     (case parseQuery q of
        None \<Rightarrow> Inl (ErrorObj msgInvalidQuery)
      | Some (name, folder) \<Rightarrow> Inr (take 1 (filter (namedIn name folder) (files w))))"

definition driveList :: "config \<Rightarrow> jsstring \<Rightarrow> driveFile list io" where
  "driveList cfg fileName w =
     (let q = driveQuery cfg fileName;
          w1 = w\<lparr>calls := calls w @ [DriveList q]\<rparr>
      in case faults w (length (calls w)) of
           Some e \<Rightarrow> (Inl e, w1)
         | None \<Rightarrow> (driveSearch q w1, w1))"

definition driveCreate ::
  "jsstring \<Rightarrow> jsstring list \<Rightarrow> jsstring \<Rightarrow> bytes \<Rightarrow> (jsstring option \<times> jsstring option) io" where
  "driveCreate name parents mimeType body =
     request (DriveCreate name parents mimeType body)
       (\<lambda>w. (case assigned w (length (files w)) of (newId, newLink) \<Rightarrow>
               ((newId, newLink),
                w\<lparr>files := files w @
                   [\<lparr> file_id = newId, file_name = name, file_webViewLink = newLink,
                      file_parents = parents, file_trashed = False,
                      file_mimeType = mimeType, file_body = body \<rparr>]\<rparr>)))"

section \<open>Ledger Writer (planilha.ts)\<close>

text \<open>JavaScript truthiness of a value that is a string, \<open>null\<close> or \<open>undefined\<close>.\<close>

definition truthy :: "jsstring option \<Rightarrow> bool" where
  "truthy v = (case v of None \<Rightarrow> False | Some s \<Rightarrow> s \<noteq> [])"

text \<open>\<open>values?.flat() ?? []\<close>, \<open>values?.[0] ?? []\<close> and \<open>values?.[0]?.[0]\<close>.\<close>

definition flatValues :: "sheetValues \<Rightarrow> jsstring option list" where
  "flatValues v = (case v of None \<Rightarrow> [] | Some rows \<Rightarrow> concat rows)"

definition firstRow :: "sheetValues \<Rightarrow> jsstring option list" where
  "firstRow v = (case v of None \<Rightarrow> [] | Some [] \<Rightarrow> [] | Some (r # _) \<Rightarrow> r)"

definition firstCell :: "sheetValues \<Rightarrow> jsstring option" where
  "firstCell v = (case firstRow v of [] \<Rightarrow> None | c # _ \<Rightarrow> c)"

text \<open>A cell address \<open>sheet!column row\<close>.\<close>

definition cellAddress :: "jsstring \<Rightarrow> jsstring \<Rightarrow> nat \<Rightarrow> jsstring" where
  "cellAddress sheet col row = sheet @ ascii ''!'' @ col @ showNat row"

text \<open>The messages of the errors, as the template literals build them.\<close>

definition msgNotConfigured :: jsstring where
  "msgNotConfigured =
     ascii ''GOOGLE_SHEET_ID e GOOGLE_DRIVE_FOLDER_ID n'' @ [0xE3] @
     ascii ''o configurados no .env''"

definition msgNoMonth :: jsstring where
  "msgNoMonth =
     ascii ''M'' @ [0xEA] @ ascii ''s n'' @ [0xE3] @
     ascii ''o informado para upload de comprovante''"

definition msgNoRefreshToken :: jsstring where
  "msgNoRefreshToken =
     ascii ''GOOGLE_REFRESH_TOKEN n'' @ [0xE3] @
     ascii ''o configurado. Execute: npm run authorize-google''"

definition msgNameNotFound :: "config \<Rightarrow> jsstring \<Rightarrow> jsstring" where
  "msgNameNotFound cfg nome =
     ascii ''Nome '' @ [0x22] @ nome @ [0x22] @ ascii '' n'' @ [0xE3] @
     ascii ''o encontrado na coluna '' @ nameColumn cfg @ ascii '' (linhas '' @
     showNat (nameStartRow cfg) @ ascii ''-'' @ showNat (nameEndRow cfg) @ ascii '')''"

definition msgColumnNotFound :: "config \<Rightarrow> jsstring \<Rightarrow> jsstring" where
  "msgColumnNotFound cfg mes =
     ascii ''Coluna '' @ [0x22] @ ascii ''Comp - '' @ mes @ [0x22] @ ascii '' n'' @ [0xE3] @
     ascii ''o encontrada nos cabe'' @ [0xE7] @ ascii ''alhos ('' @ headerRange cfg @ ascii '')''"

definition msgDuplicate :: "jsstring \<Rightarrow> jsstring \<Rightarrow> jsstring \<Rightarrow> jsstring \<Rightarrow> jsstring" where
  "msgDuplicate nome mes targetCell existingValue =
     ascii ''Comprovante j'' @ [0xE1] @ ascii '' existe para '' @ nome @ ascii '' em '' @ mes @
     ascii ''. C'' @ [0xE9] @ ascii ''lula '' @ targetCell @ ascii '' j'' @ [0xE1] @
     ascii '' cont'' @ [0xE9] @ ascii ''m: '' @ existingValue"

definition msgExistingIncomplete :: "jsstring \<Rightarrow> jsstring" where
  "msgExistingIncomplete name =
     ascii ''Arquivo existente no Drive sem dados suficientes (id/link): '' @ name"

definition msgNoLink :: jsstring where
  "msgNoLink = ascii ''Falha ao obter link do arquivo no Drive''"

definition msgMainNameNotFound :: "config \<Rightarrow> jsstring \<Rightarrow> jsstring" where
  "msgMainNameNotFound cfg nome =
     ascii ''Nome '' @ [0x22] @ nome @ [0x22] @ ascii '' n'' @ [0xE3] @
     ascii ''o encontrado na aba '' @ mainSheetName cfg @ ascii '' (coluna '' @ nameColumn cfg @
     ascii '', linhas '' @ showNat (nameStartRow cfg) @ ascii ''-'' @
     showNat (nameEndRow cfg) @ ascii '')''"

definition msgMainMonthNotFound :: "config \<Rightarrow> jsstring \<Rightarrow> jsstring" where
  "msgMainMonthNotFound cfg mes =
     ascii ''M'' @ [0xEA] @ ascii ''s '' @ [0x22] @ mes @ [0x22] @ ascii '' n'' @ [0xE3] @
     ascii ''o encontrado nos cabe'' @ [0xE7] @ ascii ''alhos da aba '' @ mainSheetName cfg @
     ascii '' ('' @ headerRange cfg @ ascii '')''"

text \<open>
  \<open>marcarComprovanteNaAbaMain\<close>: read the names and the headers of the main sheet, find
  the row by normalised equality and the column by normalised containment, write \<open>true\<close>.
\<close>

definition marcarComprovanteNaAbaMain :: "runtime \<Rightarrow> config \<Rightarrow> jsstring \<Rightarrow> jsstring \<Rightarrow> unit io" where
  "marcarComprovanteNaAbaMain rt cfg nome mes =
     bindIO
       (promiseAll2
          (sheetsGet cfg (mainSheetName cfg @ ascii ''!'' @ nameRange cfg))
          (sheetsGet cfg (mainSheetName cfg @ ascii ''!'' @ headerRange cfg)))
       (\<lambda>(mainNamesResponse, mainHeadersResponse).
          let mainNames = flatValues mainNamesResponse;
              mainHeaders = firstRow mainHeadersResponse;
              mainNomeIndex = nomeIndex rt mainNames nome
          in if mainNomeIndex = - 1 then throwIO (ErrorObj (msgMainNameNotFound cfg nome))
             else
               let mainMonthIdx = mainMonthIndex rt mainHeaders mes
               in if mainMonthIdx = - 1 then throwIO (ErrorObj (msgMainMonthNotFound cfg mes))
                  else
                    let mainRow = nat mainNomeIndex + nameStartRow cfg;
                        mainCol = getColumnFromOffset cfg mainMonthIdx;
                        mainCell = cellAddress (mainSheetName cfg) mainCol mainRow
                    in sheetsUpdate cfg mainCell (Mark True))"

record ReceiptUpload =
  up_fileName :: jsstring
  up_buffer :: bytes
  up_mimeType :: "jsstring option"

text \<open>The second argument of \<open>planilha\<close>: the path of an image, or a receipt in memory.\<close>

datatype arg2 = ImgPath jsstring | Upload ReceiptUpload

text \<open>
  Lines 227 to 248 of \<open>planilha\<close>: the month must be given and not empty; a path is read
  from the disk and named by \<open>customFileName\<close> or by its base name.
\<close>

definition planilha_args ::
  "runtime \<Rightarrow> arg2 \<Rightarrow> jsstring option \<Rightarrow> jsstring option \<Rightarrow> (jsstring \<times> ReceiptUpload) io" where
  "planilha_args rt a2 arg3 customFileName =
     (case a2 of
        ImgPath imgPath \<Rightarrow>
          (if \<not> truthy arg3 then throwIO (ErrorObj msgNoMonth)
           else bindIO (readFile imgPath)
                  (\<lambda>buffer. returnIO
                     (orEmpty arg3,
                      \<lparr> up_fileName = (case customFileName of None \<Rightarrow> basename rt imgPath
                                        | Some n \<Rightarrow> n),
                        up_buffer = buffer, up_mimeType = Some (ascii ''image/jpeg'') \<rparr>)))
      | Upload receipt \<Rightarrow>
          (if \<not> truthy arg3 then throwIO (ErrorObj msgNoMonth)
           else returnIO (orEmpty arg3, receipt)))"

text \<open>\<open>getAuthClient\<close> of google-auth.ts throws when there is no refresh token.\<close>

definition getAuthClient :: "config \<Rightarrow> unit io" where
  "getAuthClient cfg =
     (if refreshToken cfg = [] then throwIO (ErrorObj msgNoRefreshToken) else returnIO ())"

text \<open>
  Lines 254 to 301: read names and headers of the sheet of receipts, find the row and the
  column, build the address of the target cell.
\<close>

definition planilha_locate :: "runtime \<Rightarrow> config \<Rightarrow> jsstring \<Rightarrow> jsstring \<Rightarrow> jsstring io" where
  "planilha_locate rt cfg nome mes =
     bindIO
       (promiseAll2
          (sheetsGet cfg (sheetName cfg @ ascii ''!'' @ nameRange cfg))
          (sheetsGet cfg (sheetName cfg @ ascii ''!'' @ headerRange cfg)))
       (\<lambda>(namesResponse, headersResponse).
          let names = flatValues namesResponse;
              headers = firstRow headersResponse;
              nomeIdx = nomeIndex rt names nome
          in if nomeIdx = - 1 then throwIO (ErrorObj (msgNameNotFound cfg nome))
             else
               let nomeRow = nat nomeIdx + nameStartRow cfg;
                   colIdx = colIndex headers mes
               in if colIdx = - 1 then throwIO (ErrorObj (msgColumnNotFound cfg mes))
                  else
                    let targetCol = getColumnFromOffset cfg colIdx
                    in returnIO (cellAddress (sheetName cfg) targetCol nomeRow))"

text \<open>Lines 303 to 315: the duplicate guard, \<open>existingValue && existingValue !== ""\<close>.\<close>

definition planilha_guard :: "config \<Rightarrow> jsstring \<Rightarrow> jsstring \<Rightarrow> jsstring \<Rightarrow> unit io" where
  "planilha_guard cfg nome mes targetCell =
     bindIO (sheetsGet cfg targetCell)
       (\<lambda>cellCheckResponse.
          let existingValue = firstCell cellCheckResponse
          in if truthy existingValue \<and> existingValue \<noteq> Some []
             then throwIO (ErrorObj (msgDuplicate nome mes targetCell (orEmpty existingValue)))
             else returnIO ())"

text \<open>
  Lines 319 to 362: look the file name up in the folder; reuse the file found, which must
  have an id and a link; otherwise create the file, which must come back with a link.
  The result is \<open>fileId\<close> (which \<open>data.id!\<close> leaves \<open>undefined\<close> when Drive sends none)
  and \<open>fileLink\<close>.
\<close>

definition planilha_artifact :: "config \<Rightarrow> ReceiptUpload \<Rightarrow> (jsstring option \<times> jsstring) io" where
  "planilha_artifact cfg receipt =
     bindIO (driveList cfg (up_fileName receipt))
       (\<lambda>found.
          case found of
            existingFile # _ \<Rightarrow>
              (if \<not> truthy (file_id existingFile) \<or> \<not> truthy (file_webViewLink existingFile)
               then throwIO (ErrorObj (msgExistingIncomplete (up_fileName receipt)))
               else returnIO (file_id existingFile, orEmpty (file_webViewLink existingFile)))
          | [] \<Rightarrow>
              bindIO
                (driveCreate (up_fileName receipt) [folderId cfg]
                   (case up_mimeType receipt of None \<Rightarrow> ascii ''image/jpeg'' | Some m \<Rightarrow> m)
                   (up_buffer receipt))
                (\<lambda>(newId, newLink).
                   if \<not> truthy newLink then throwIO (ErrorObj msgNoLink)
                   else returnIO (newId, orEmpty newLink)))"

text \<open>Lines 364 to 370: the formula, with double quotes doubled and the separator injected.\<close>

definition hyperlink :: "config \<Rightarrow> jsstring \<Rightarrow> jsstring \<Rightarrow> jsstring" where
  "hyperlink cfg fileLink name =
     ascii ''=HYPERLINK('' @ [0x22] @ doubleQuotes fileLink @ [0x22] @ formulaSeparator cfg @
     [0x22] @ doubleQuotes name @ [0x22] @ ascii '')''"

text \<open>
  \<open>planilha\<close>. The \<open>catch\<close> of its \<open>try\<close> logs and throws the same error again, so the
  error of a step is the error of \<open>planilha\<close>.
\<close>

definition planilha ::
  "runtime \<Rightarrow> config \<Rightarrow> jsstring \<Rightarrow> arg2 \<Rightarrow> jsstring option \<Rightarrow> jsstring option \<Rightarrow> unit io" where
  "planilha rt cfg nome a2 arg3 customFileName =
     (if spreadsheetId cfg = [] \<or> folderId cfg = [] then throwIO (ErrorObj msgNotConfigured)
      else
        bindIO (planilha_args rt a2 arg3 customFileName) (\<lambda>(mes, receipt).
        bindIO (getAuthClient cfg) (\<lambda>_.
        bindIO (planilha_locate rt cfg nome mes) (\<lambda>targetCell.
        bindIO (planilha_guard cfg nome mes targetCell) (\<lambda>_.
        bindIO (planilha_artifact cfg receipt) (\<lambda>(fileId, fileLink).
        bindIO (sheetsUpdate cfg targetCell
                  (Formula (hyperlink cfg fileLink (up_fileName receipt)))) (\<lambda>_.
        marcarComprovanteNaAbaMain rt cfg nome mes)))))))"

section \<open>Intake Pipeline (processPixReceipt.ts)\<close>

datatype reason = reason_not_pix | reason_error

record ProcessResult =
  success :: bool
  reason :: "reason option"
  error :: "jsstring option"
  r_nome :: "jsstring option"
  r_mes :: "jsstring option"
  r_fileName :: "jsstring option"

record PixReceiptInput =
  in_imageBuffer :: bytes
  in_extension :: jsstring
  in_mimeType :: "jsstring option"

text \<open>
  \<open>getCurrentMonthName\<close>: the long month name of the clock, with \<open>/^\w/\<close> upper-cased:
  the first code unit, when it is an ASCII letter, digit or underscore.
\<close>

definition isWordChar :: "nat \<Rightarrow> bool" where
  "isWordChar c =
     ((0x30 \<le> c \<and> c \<le> 0x39) \<or> (0x41 \<le> c \<and> c \<le> 0x5A) \<or> c = 0x5F \<or> (0x61 \<le> c \<and> c \<le> 0x7A))"

definition getCurrentMonthName :: "runtime \<Rightarrow> jsstring io" where
  "getCurrentMonthName rt w =
     (Inr (case monthLong w of
             [] \<Rightarrow> []
           | c # cs \<Rightarrow> (if isWordChar c then toUpperCase rt [c] @ cs else c # cs)), w)"

text \<open>The body of the \<open>try\<close> of \<open>processPixReceipt\<close>.\<close>

definition processPixReceipt_try :: "runtime \<Rightarrow> config \<Rightarrow> PixReceiptInput \<Rightarrow> ProcessResult io" where
  "processPixReceipt_try rt cfg input =
     (let mime = (case in_mimeType input of None \<Rightarrow> ascii ''image/jpeg'' | Some m \<Rightarrow> m)
      in bindIO (read_image rt (ImageBuffer (in_imageBuffer input)) mime) (\<lambda>nome.
           if nome = naoEPix
           then returnIO \<lparr> success = False, reason = Some reason_not_pix, error = None,
                           r_nome = None, r_mes = None, r_fileName = None \<rparr>
           else
             let nomeCapitalizado = capitalizeName rt nome
             in bindIO (getCurrentMonthName rt) (\<lambda>mes.
                  let formatted = nomeFormatado nomeCapitalizado mes (in_extension input)
                  in bindIO
                       (planilha rt cfg nomeCapitalizado
                          (Upload \<lparr> up_fileName = formatted, up_buffer = in_imageBuffer input,
                                    up_mimeType = Some mime \<rparr>)
                          (Some mes) None)
                       (\<lambda>_. returnIO
                          \<lparr> success = True, reason = None, error = None,
                            r_nome = Some nomeCapitalizado, r_mes = Some mes,
                            r_fileName = Some formatted \<rparr>))))"

text \<open>
  Line 115, \<open>error instanceof Error ? error.message : String(error)\<close>: the message of an
  \<open>Error\<close>, the string of another value, and for a value that has no string the
  \<open>TypeError\<close> that \<open>String\<close> throws.
\<close>

definition msgCannotConvert :: jsstring where
  "msgCannotConvert = ascii ''Cannot convert object to primitive value''"

definition errorMessage :: "thrown \<Rightarrow> thrown + jsstring" where
  "errorMessage e =
     (case e of
        ErrorObj m \<Rightarrow> Inr m
      | NonError s \<Rightarrow> Inr s
      | Unprintable \<Rightarrow> Inl (ErrorObj msgCannotConvert))"

text \<open>
  \<open>processPixReceipt\<close>: the \<open>catch\<close> turns what the body throws into a result that carries
  its message. Nothing catches what the \<open>catch\<close> block itself throws: the promise that
  \<open>processPixReceipt\<close> returns is then rejected (\<open>Inl\<close>).
\<close>

definition processPixReceipt :: "runtime \<Rightarrow> config \<Rightarrow> PixReceiptInput \<Rightarrow> ProcessResult io" where
  "processPixReceipt rt cfg input w =
     (case processPixReceipt_try rt cfg input w of
        (Inr result, w') \<Rightarrow> (Inr result, w')
      | (Inl e, w') \<Rightarrow>
          (case errorMessage e of
             Inl typeError \<Rightarrow> (Inl typeError, w')
           | Inr message \<Rightarrow>
               (Inr \<lparr> success = False, reason = Some reason_error, error = Some message,
                      r_nome = None, r_mes = None, r_fileName = None \<rparr>, w')))"

section \<open>Vocabulary of the properties\<close>

text \<open>
  The calls an execution adds to the log, and the kinds of call the properties speak of:
  a call to the artifact store (Drive), a call to the spreadsheet, the write of a formula,
  the write of the mark \<open>true\<close>.
\<close>

definition newCalls :: "world \<Rightarrow> world \<Rightarrow> call list" where
  "newCalls w w' = drop (length (calls w)) (calls w')"

definition isDriveCall :: "call \<Rightarrow> bool" where
  "isDriveCall c = (case c of DriveList _ \<Rightarrow> True | DriveCreate _ _ _ _ \<Rightarrow> True | _ \<Rightarrow> False)"

definition isDriveCreate :: "call \<Rightarrow> bool" where
  "isDriveCreate c = (case c of DriveCreate _ _ _ _ \<Rightarrow> True | _ \<Rightarrow> False)"

definition isSheetsCall :: "call \<Rightarrow> bool" where
  "isSheetsCall c = (case c of SheetsGet _ _ \<Rightarrow> True | SheetsUpdate _ _ _ \<Rightarrow> True | _ \<Rightarrow> False)"



text \<open>A valid single-letter column address: one code unit, \<open>A\<close> to \<open>Z\<close>.\<close>

definition isColumnLetter :: "jsstring \<Rightarrow> bool" where
  "isColumnLetter s = (case s of [c] \<Rightarrow> 0x41 \<le> c \<and> c \<le> 0x5A | _ \<Rightarrow> False)"

text \<open>
  The first whitespace-separated token of a string, in the words of the specification:
  the first maximal run of code units that are not whitespace.
\<close>

definition firstWhitespaceToken :: "jsstring \<Rightarrow> jsstring" where
  "firstWhitespaceToken s = takeWhile (\<lambda>c. \<not> isWhiteSpace c) (dropWhile isWhiteSpace s)"

text \<open>
  The calls that only read: the local disk and \<open>values.get\<close>.
\<close>

definition isRead :: "call \<Rightarrow> bool" where
  "isRead c = (case c of ReadFile _ \<Rightarrow> True | SheetsGet _ _ \<Rightarrow> True | _ \<Rightarrow> False)"

text \<open>
  \<open>logsOnly K m\<close>: whatever the world, the computation \<open>m\<close> only appends calls of
  kind \<open>K\<close> to the log, and leaves the schedule of failures alone.
\<close>

definition logsOnly :: "(call \<Rightarrow> bool) \<Rightarrow> 'a io \<Rightarrow> bool" where
  "logsOnly K m \<longleftrightarrow>
     (\<forall>w r w'. m w = (r, w') \<longrightarrow>
        faults w' = faults w \<and> (\<exists>new. calls w' = calls w @ new \<and> (\<forall>c \<in> set new. K c)))"



text \<open>
  \<open>throwsOwn m\<close>: whatever the world, what the computation \<open>m\<close> throws is an \<open>Error\<close>
  made by the program itself or the very value that a service threw at one of its calls;
  and \<open>m\<close> leaves the schedule of failures alone.
\<close>

definition throwsOwn :: "'a io \<Rightarrow> bool" where
  "throwsOwn m \<longleftrightarrow>
     (\<forall>w r w'. m w = (r, w') \<longrightarrow>
        faults w' = faults w \<and>
        (\<forall>e. r = Inl e \<longrightarrow> (\<exists>msg. e = ErrorObj msg) \<or> (\<exists>n. faults w n = Some e)))"

section \<open>An example world\<close>

text \<open>
  The spreadsheet of the end-to-end example: the names \<open>Ana\<close> and \<open>Bruno\<close> in rows 2
  and 3, the headers \<open>Comp - Janeiro\<close> and \<open>Comp - Fevereiro\<close> in columns \<open>B\<close> and
  \<open>C\<close> of the sheet of receipts, the headers \<open>Janeiro\<close> and \<open>Fevereiro\<close> on the main
  sheet. Drive is empty and numbers its files; no service fails; the vision model answers
  the name \<open>ANA\<close>; the month is \<open>fevereiro\<close>.
\<close>

definition exampleLedger :: "jsstring \<Rightarrow> sheetValues" where
  "exampleLedger rng =
     (if rng = ascii ''Comprovantes!A2:A29''
        then Some [[Some (ascii ''Ana'')], [Some (ascii ''Bruno'')]]
      else if rng = ascii ''Comprovantes!B1:L1''
        then Some [[Some (ascii ''Comp - Janeiro''), Some (ascii ''Comp - Fevereiro'')]]
      else if rng = ascii ''Main!A2:A29''
        then Some [[Some (ascii ''Ana'')], [Some (ascii ''Bruno'')]]
      else if rng = ascii ''Main!B1:L1''
        then Some [[Some (ascii ''Janeiro''), Some (ascii ''Fevereiro'')]]
      else None)"

definition exampleWorld :: world where
  "exampleWorld =
     \<lparr> groqAnswer = (\<lambda>_ _. Some (ascii ''ANA'')),
       monthLong = ascii ''fevereiro'',
       disk = (\<lambda>_. Inl (ErrorObj (ascii ''ENOENT''))),
       cells = exampleLedger,
       files = [],
       assigned = (\<lambda>n. (Some (ascii ''id-'' @ showNat n), Some (ascii ''https://drive.example/'' @ showNat n))),
       faults = (\<lambda>_. None),
       calls = [] \<rparr>"

definition exampleReceipt :: ReceiptUpload where
  "exampleReceipt =
     \<lparr> up_fileName = ascii ''Ana_Fev.jpg'', up_buffer = [0xFF, 0xD8],
       up_mimeType = Some (ascii ''image/jpeg'') \<rparr>"

definition exampleInput :: PixReceiptInput where
  "exampleInput = \<lparr> in_imageBuffer = [0xFF, 0xD8], in_extension = ascii ''jpg'', in_mimeType = None \<rparr>"

text \<open>
  The same world with the cell \<open>C2\<close> of the sheet of receipts already holding a single
  space; with a vision model that answers the sentinel; with a first call that throws
  \<open>401 Unauthorized\<close>.
\<close>

definition filledWorld :: world where
  "filledWorld =
     exampleWorld\<lparr>cells := (cells exampleWorld)(ascii ''Comprovantes!C2'' := Some [[Some (ascii '' '')]])\<rparr>"

definition notPixWorld :: world where
  "notPixWorld = exampleWorld\<lparr>groqAnswer := (\<lambda>_ _. Some naoEPix)\<rparr>"

definition throwingWorld :: world where
  "throwingWorld =
     exampleWorld\<lparr>faults := (\<lambda>n. if n = 0 then Some (ErrorObj (ascii ''401 Unauthorized''))
                                   else None)\<rparr>"

text \<open>
  A receipt whose file name holds two backslashes, \<open>A\<close>, backslash, backslash,
  \<open>_Fev.jpg\<close>. A Drive that answers \<open>files.create\<close> with a link and no id. A world whose first read of the spreadsheet
  (the call after the chat completion) throws a value that has no string conversion. A
  main sheet whose headers are decorated and carry no marker, \<open>Janeiro\<close> and
  \<open>Pago em FEVEREIRO/2025\<close>, and whose names are \<open>Bruno\<close> and \<open>ANA\<close> after a space.
\<close>

definition backslashReceipt :: ReceiptUpload where
  "backslashReceipt =
     \<lparr> up_fileName = ascii ''A'' @ [0x5C, 0x5C] @ ascii ''_Fev.jpg'', up_buffer = [0xFF, 0xD8],
       up_mimeType = Some (ascii ''image/jpeg'') \<rparr>"

definition noIdWorld :: world where
  "noIdWorld =
     exampleWorld\<lparr>assigned := (\<lambda>n. (None, Some (ascii ''https://drive.example/'' @ showNat n)))\<rparr>"

definition unprintableWorld :: world where
  "unprintableWorld = exampleWorld\<lparr>faults := (\<lambda>n. if n = 1 then Some Unprintable else None)\<rparr>"


text \<open>
  The period \<open>Mar\<close>, c with cedilla, \<open>o\<close>, and the same world in March, with headers
  typed without the cedilla: \<open>Comp - Marco\<close> on the sheet of receipts, \<open>Marco\<close> on the
  main sheet.
\<close>

definition marco :: jsstring where
  "marco = ascii ''Mar'' @ [0xE7] @ ascii ''o''"

definition marcoWorld :: world where
  "marcoWorld =
     exampleWorld\<lparr>cells := (cells exampleWorld)
        (ascii ''Comprovantes!B1:L1'' :=
           Some [[Some (ascii ''Comp - Fevereiro''), Some (ascii ''Comp - Marco'')]],
         ascii ''Main!B1:L1'' := Some [[Some (ascii ''Fevereiro''), Some (ascii ''Marco'')]])\<rparr>"

section \<open>Strings and lookups\<close>

lemma startsWith_iff: "startsWith s t \<longleftrightarrow> (\<exists>q. s = t @ q)"
  by (induction s t rule: startsWith.induct) auto

lemma includesStr_iff: "includesStr s t \<longleftrightarrow> (\<exists>p q. s = p @ t @ q)"
proof (induction s)
  case Nil
  then show ?case by simp
next
  case (Cons c cs)
  show ?case
  proof
    assume "includesStr (c # cs) t"
    then consider "startsWith (c # cs) t" | "includesStr cs t" by auto
    then show "\<exists>p q. c # cs = p @ t @ q"
    proof cases
      case 1
      then obtain q where "c # cs = t @ q" by (auto simp: startsWith_iff)
      then have "c # cs = [] @ t @ q" by simp
      then show ?thesis by blast
    next
      case 2
      then obtain p q where "cs = p @ t @ q" using Cons.IH by blast
      then have "c # cs = (c # p) @ t @ q" by simp
      then show ?thesis by blast
    qed
  next
    assume "\<exists>p q. c # cs = p @ t @ q"
    then obtain p q where pq: "c # cs = p @ t @ q" by blast
    show "includesStr (c # cs) t"
    proof (cases p)
      case Nil
      with pq have "startsWith (c # cs) t" by (auto simp: startsWith_iff)
      then show ?thesis by simp
    next
      case (Cons a p')
      with pq have "cs = p' @ t @ q" by simp
      then have "includesStr cs t" using Cons.IH by blast
      then show ?thesis by simp
    qed
  qed
qed

lemma findIndex_ge: "- 1 \<le> findIndex P xs"
  by (induction xs) (auto simp: Let_def)

lemma findIndex_none_iff: "findIndex P xs = - 1 \<longleftrightarrow> (\<forall>x \<in> set xs. \<not> P x)"
proof (induction xs)
  case Nil
  then show ?case by simp
next
  case (Cons x xs)
  have "- 1 \<le> findIndex P xs" by (rule findIndex_ge)
  then have "findIndex P xs + 1 \<noteq> - 1" by arith
  with Cons show ?case by (auto simp: Let_def)
qed

lemma findIndex_found:
  "findIndex P xs \<noteq> - 1 \<Longrightarrow>
     0 \<le> findIndex P xs \<and> nat (findIndex P xs) < length xs \<and> P (xs ! nat (findIndex P xs)) \<and>
     (\<forall>j < nat (findIndex P xs). \<not> P (xs ! j))"
proof (induction xs)
  case Nil
  then show ?case by simp
next
  case (Cons x xs)
  show ?case
  proof (cases "P x")
    case True
    then show ?thesis by simp
  next
    case False
    with Cons.prems have ne: "findIndex P xs \<noteq> - 1" by (auto simp: Let_def split: if_splits)
    from Cons.IH [OF ne] have ih: "0 \<le> findIndex P xs" "nat (findIndex P xs) < length xs"
      "P (xs ! nat (findIndex P xs))" "\<forall>j < nat (findIndex P xs). \<not> P (xs ! j)" by auto
    have eq: "findIndex P (x # xs) = findIndex P xs + 1" using False ne by (simp add: Let_def)
    have n: "nat (findIndex P xs + 1) = Suc (nat (findIndex P xs))" using ih(1) by simp
    have "\<forall>j < Suc (nat (findIndex P xs)). \<not> P ((x # xs) ! j)"
    proof (intro allI impI)
      fix j assume "j < Suc (nat (findIndex P xs))"
      then show "\<not> P ((x # xs) ! j)" using False ih(4) by (cases j) auto
    qed
    then show ?thesis using ih eq n by simp
  qed
qed

lemma findIndex_first:
  "i < length xs \<Longrightarrow> P (xs ! i) \<Longrightarrow> \<forall>j < i. \<not> P (xs ! j) \<Longrightarrow> findIndex P xs = int i"
proof -
  assume i: "i < length xs" and p: "P (xs ! i)" and first: "\<forall>j < i. \<not> P (xs ! j)"
  from i p have "findIndex P xs \<noteq> - 1" by (auto simp: findIndex_none_iff)
  from findIndex_found [OF this] have f: "0 \<le> findIndex P xs"
    "P (xs ! nat (findIndex P xs))" "\<forall>j < nat (findIndex P xs). \<not> P (xs ! j)" by auto
  have "\<not> nat (findIndex P xs) < i" using first f(2) by blast
  moreover have "\<not> i < nat (findIndex P xs)" using f(3) p by blast
  ultimately have "nat (findIndex P xs) = i" by arith
  then show ?thesis using f(1) by simp
qed

lemma trim_around:
  assumes "\<forall>c \<in> set pre. isWhiteSpace c" and "\<forall>c \<in> set post. isWhiteSpace c"
    and "core = [] \<or> (\<not> isWhiteSpace (hd core) \<and> \<not> isWhiteSpace (last core))"
  shows "trim (pre @ core @ post) = core"
proof (cases core)
  case Nil
  have d: "dropWhile isWhiteSpace (pre @ post) = []"
    unfolding dropWhile_eq_Nil_conv using assms(1,2) by auto
  have "trim (pre @ post) = []" unfolding trim_def d by simp
  then show ?thesis using Nil by simp
next
  case (Cons c cs)
  with assms(3) have h: "\<not> isWhiteSpace (hd core)" and l: "\<not> isWhiteSpace (last core)" by auto
  have "dropWhile isWhiteSpace (pre @ core @ post) = dropWhile isWhiteSpace (core @ post)"
    using assms(1) by (simp add: dropWhile_append2)
  also have "\<dots> = core @ post" using h Cons by simp
  finally have 1: "dropWhile isWhiteSpace (pre @ core @ post) = core @ post" .
  have "dropWhile isWhiteSpace (rev post @ rev core) = dropWhile isWhiteSpace (rev core)"
    by (rule dropWhile_append2) (use assms(2) in auto)
  also have "\<dots> = rev core"
  proof -
    have ne: "rev core \<noteq> []" using Cons by simp
    have "hd (rev core) = last core" using Cons by (simp add: hd_rev)
    with l have "\<not> isWhiteSpace (hd (rev core))" by simp
    with ne show ?thesis by (metis dropWhile.simps(2) list.collapse)
  qed
  finally show ?thesis using 1 by (simp add: trim_def)
qed

lemma firstPiece_splitSpace: "firstPiece (splitSpace s) = takeWhile (\<lambda>c. c \<noteq> 0x20) s"
  by (induction s) (auto simp: firstPiece_def split: list.splits)

section \<open>Column addresses\<close>

text \<open>
  C7 (as amended). The single-letter address is the start letter advanced by the offset as
  long as the sum stays at or below \<open>Z\<close>: for a start column \<open>s\<close> and \<open>0 \<le> k\<close> with
  \<open>s + k \<le> Z\<close>, \<open>getColumnFromOffset k\<close> is the one capital letter \<open>k\<close> places after
  \<open>s\<close>. From the configured start letter \<open>B\<close> that is every offset from 0 to 24 (the
  configured header range \<open>B\<close> to \<open>L\<close> uses 0 to 10); offset 0 gives \<open>B\<close> and offset 10
  gives \<open>L\<close>.
\<close>

theorem C7_letters:
  "(monthStartColumn cfg = s # rest \<and> 0x41 \<le> s \<and> 0 \<le> k \<and> int s + k \<le> 0x5A \<longrightarrow>
      getColumnFromOffset cfg k = [s + nat k] \<and> isColumnLetter (getColumnFromOffset cfg k))
   \<and> (0 \<le> k \<and> k \<le> 24 \<longrightarrow>
      getColumnFromOffset defaultConfig k = [0x42 + nat k] \<and>
      isColumnLetter (getColumnFromOffset defaultConfig k))
   \<and> getColumnFromOffset defaultConfig 0 = ascii ''B''
   \<and> getColumnFromOffset defaultConfig 10 = ascii ''L''"
proof -
  have gen: "getColumnFromOffset c k = [s + nat k] \<and> isColumnLetter (getColumnFromOffset c k)"
    if "monthStartColumn c = s # rest" "0x41 \<le> s" "0 \<le> k" "int s + k \<le> 0x5A" for c s rest
  proof -
    have "(int s + k) mod 65536 = int s + k" using that by simp
    then have "nat ((int s + k) mod 65536) = s + nat k" using that by simp
    then show ?thesis using that by (simp add: getColumnFromOffset_def isColumnLetter_def)
  qed
  have b: "monthStartColumn defaultConfig = [0x42]" by (simp add: defaultConfig_def ascii_def)
  have "getColumnFromOffset defaultConfig k = [0x42 + nat k] \<and> isColumnLetter (getColumnFromOffset defaultConfig k)"
    if "0 \<le> k" "k \<le> 24"
    by (intro gen [OF b]) (use that in simp_all)
  moreover have "getColumnFromOffset defaultConfig 0 = ascii ''B''"
    by (simp add: getColumnFromOffset_def defaultConfig_def ascii_def)
  moreover have "getColumnFromOffset defaultConfig 10 = ascii ''L''"
    by (simp add: getColumnFromOffset_def defaultConfig_def ascii_def)
  ultimately show ?thesis using gen by blast
qed

theorem C7_letters_witness:
  "monthStartColumn defaultConfig = [0x42] \<and> (0x41::nat) \<le> 0x42 \<and> (0::int) \<le> 24 \<and> int 0x42 + 24 \<le> 0x5A
   \<and> getColumnFromOffset defaultConfig 24 = ascii ''Z''
   \<and> isColumnLetter (getColumnFromOffset defaultConfig 24)"
  using C7_letters [of defaultConfig "0x42" "[]" 24]
  by (simp add: defaultConfig_def ascii_def isColumnLetter_def)

text \<open>
  C7 as stated fails at offset 25: from \<open>B\<close> the result is the code unit after \<open>Z\<close>,
  the bracket \<open>[\<close>, which is not a column letter.
\<close>

theorem C7_offset_25_counterexample:
  "getColumnFromOffset defaultConfig 25 = ascii ''['' \<and> \<not> isColumnLetter (getColumnFromOffset defaultConfig 25)"
  by (simp add: getColumnFromOffset_def defaultConfig_def ascii_def isColumnLetter_def)

section \<open>Row lookup\<close>

text \<open>
  C5. \<open>normalize\<close> is \<open>normalizeText\<close>: decompose (NFD), drop the combining marks
  \<open>U+0300\<close> to \<open>U+036F\<close>, lower-case, then trim; trimming removes the white space around
  a text, all of it and nothing else, so that a text whose first and last code units are
  not white space comes back whole from any white space put around it.
  For every sequence \<open>R\<close> of row labels and every target \<open>t\<close>: if \<open>i\<close> is the unique
  index whose normalised label equals the normalised target, the row lookup returns \<open>i\<close>;
  it returns not-found (\<open>-1\<close>) exactly when no index matches; whatever index it returns is
  in range and matches. Normalisation makes the match blind to case, to diacritics and to
  surrounding white space: the label \<open>JO\<close>\<open>A-tilde\<close>\<open>O SILVA\<close> matches the target
  \<open>joao silva\<close>, also with spaces, a tab or a line feed around either of them; white
  space inside the name is kept, so two spaces between the words do not match one.
\<close>

theorem C5_nomeIndex:
  "(i < length R \<and> normalizeText rt (orEmpty (R ! i)) = normalizeText rt t \<and>
      (\<forall>j < length R. normalizeText rt (orEmpty (R ! j)) = normalizeText rt t \<longrightarrow> j = i)
      \<longrightarrow> nomeIndex rt R t = int i)
   \<and> ((\<forall>j < length R. normalizeText rt (orEmpty (R ! j)) \<noteq> normalizeText rt t)
      \<longleftrightarrow> nomeIndex rt R t = - 1)
   \<and> (nomeIndex rt R t \<noteq> - 1 \<longrightarrow>
      0 \<le> nomeIndex rt R t \<and> nat (nomeIndex rt R t) < length R \<and>
      normalizeText rt (orEmpty (R ! nat (nomeIndex rt R t))) = normalizeText rt t)
   \<and> normalizeText rt t =
       trim (toLowerCase rt (filter (\<lambda>c. \<not> (0x300 \<le> c \<and> c \<le> 0x36F)) (normalizeNFD rt t)))
   \<and> ((\<forall>c \<in> set pre. isWhiteSpace c) \<and> (\<forall>c \<in> set post. isWhiteSpace c) \<and>
       (core = [] \<or> (\<not> isWhiteSpace (hd core) \<and> \<not> isWhiteSpace (last core)))
      \<longrightarrow> trim (pre @ core @ post) = core)
   \<and> isWhiteSpace 0x20 \<and> isWhiteSpace 0x09 \<and> isWhiteSpace 0x0A
   \<and> nomeIndex latin1 [Some (ascii ''JO'' @ [0xC3] @ ascii ''O SILVA'')] (ascii ''joao silva'') = 0
   \<and> nomeIndex latin1 [Some (ascii ''  JO'' @ [0xC3] @ ascii ''O SILVA '' @ [0x09])]
        (ascii '' joao silva'' @ [0x0A]) = 0
   \<and> nomeIndex latin1 [Some (ascii ''JO'' @ [0xC3] @ ascii ''O  SILVA'')] (ascii ''joao silva'') = - 1"
proof -
  let ?P = "\<lambda>n. normalizeText rt (orEmpty n) = normalizeText rt t"
  have idx: "nomeIndex rt R t = findIndex ?P R" by (simp add: nomeIndex_def)
  have a: "nomeIndex rt R t = int i"
    if "i < length R" "?P (R ! i)" "\<forall>j < length R. ?P (R ! j) \<longrightarrow> j = i"
  proof -
    have "\<forall>j < i. \<not> ?P (R ! j)"
    proof (intro allI impI)
      fix j assume "j < i"
      then have "j < length R" "j \<noteq> i" using that(1) by auto
      then show "\<not> ?P (R ! j)" using that(3) by blast
    qed
    then show ?thesis unfolding idx using that(1,2) by (intro findIndex_first) auto
  qed
  have b: "(\<forall>j < length R. \<not> ?P (R ! j)) \<longleftrightarrow> nomeIndex rt R t = - 1"
    unfolding idx findIndex_none_iff by (metis in_set_conv_nth)
  have c: "0 \<le> nomeIndex rt R t \<and> nat (nomeIndex rt R t) < length R \<and> ?P (R ! nat (nomeIndex rt R t))"
    if "nomeIndex rt R t \<noteq> - 1"
    using findIndex_found [of ?P R] that unfolding idx by blast
  have n: "normalizeText rt t =
       trim (toLowerCase rt (filter (\<lambda>c. \<not> (0x300 \<le> c \<and> c \<le> 0x36F)) (normalizeNFD rt t)))"
    by (simp add: normalizeText_def isCombiningMark_def)
  have t: "trim (pre @ core @ post) = core"
    if "\<forall>c \<in> set pre. isWhiteSpace c" "\<forall>c \<in> set post. isWhiteSpace c"
       "core = [] \<or> (\<not> isWhiteSpace (hd core) \<and> \<not> isWhiteSpace (last core))"
    using that by (rule trim_around)
  have w: "isWhiteSpace 0x20 \<and> isWhiteSpace 0x09 \<and> isWhiteSpace 0x0A"
    by (simp add: isWhiteSpace_def)
  have d: "nomeIndex latin1 [Some (ascii ''JO'' @ [0xC3] @ ascii ''O SILVA'')] (ascii ''joao silva'') = 0"
    by (simp add: nomeIndex_def normalizeText_def latin1_def ascii_def latin1_nfd_unit_def
        latin1_decomposition_def isCombiningMark_def latin1_lower_unit_def trim_def
        isWhiteSpace_def orEmpty_def)
  have e: "nomeIndex latin1 [Some (ascii ''  JO'' @ [0xC3] @ ascii ''O SILVA '' @ [0x09])]
        (ascii '' joao silva'' @ [0x0A]) = 0"
    by (simp add: nomeIndex_def normalizeText_def latin1_def ascii_def latin1_nfd_unit_def
        latin1_decomposition_def isCombiningMark_def latin1_lower_unit_def trim_def
        isWhiteSpace_def orEmpty_def)
  have f: "nomeIndex latin1 [Some (ascii ''JO'' @ [0xC3] @ ascii ''O  SILVA'')] (ascii ''joao silva'') = - 1"
    by (simp add: nomeIndex_def normalizeText_def latin1_def ascii_def latin1_nfd_unit_def
        latin1_decomposition_def isCombiningMark_def latin1_lower_unit_def trim_def
        isWhiteSpace_def orEmpty_def)
  show ?thesis using a b c n t w d e f by blast
qed

theorem C5_nomeIndex_witness:
  "nomeIndex latin1
     [Some (ascii ''Ana''), Some (ascii ''  JO'' @ [0xC3] @ ascii ''O SILVA '' @ [0x09])]
     (ascii '' joao silva'' @ [0x0A]) = 1
   \<and> normalizeText latin1 (ascii ''  JO'' @ [0xC3] @ ascii ''O SILVA '' @ [0x09]) = ascii ''joao silva''
   \<and> normalizeText latin1 (ascii '' joao silva'' @ [0x0A]) = ascii ''joao silva''
   \<and> trim (ascii ''  '' @ ascii ''joao silva'' @ (ascii '' '' @ [0x09])) = ascii ''joao silva''"
  using C5_nomeIndex [of 1 "[Some (ascii ''Ana''), Some (ascii ''  JO'' @ [0xC3] @ ascii ''O SILVA '' @ [0x09])]"
      latin1 "ascii '' joao silva'' @ [0x0A]" "ascii ''  ''" "ascii '' '' @ [0x09]" "ascii ''joao silva''"]
  by (simp add: normalizeText_def latin1_def ascii_def latin1_nfd_unit_def
        latin1_decomposition_def isCombiningMark_def latin1_lower_unit_def trim_def
        isWhiteSpace_def orEmpty_def less_Suc_eq)

section \<open>File name\<close>

text \<open>
  C8 (as amended). For every extracted name, period name and extension, the file name is
  the capitalised name up to its first space \<open>U+0020\<close> (the first piece of
  \<open>split(" ")\<close>), then \<open>_\<close>, then the first three code units of the period name, then
  the extension, with a dot put in front exactly when it does not start with one. The name
  \<open>Jo\<close>\<open>a-tilde\<close>\<open>o Silva\<close>, the period \<open>Fevereiro\<close> and the extension \<open>jpg\<close> (or
  \<open>.jpg\<close>) give \<open>Jo\<close>\<open>a-tilde\<close>\<open>o_Fev.jpg\<close>.
\<close>

theorem C8_nomeFormatado:
  "nomeFormatado (capitalizeName rt name) mes ext =
     takeWhile (\<lambda>c. c \<noteq> 0x20) (capitalizeName rt name) @ ascii ''_'' @ take 3 mes @
     (if startsWith ext (ascii ''.'') then ext else ascii ''.'' @ ext)
   \<and> nomeFormatado (capitalizeName latin1 (ascii ''Jo'' @ [0xE3] @ ascii ''o Silva''))
       (ascii ''Fevereiro'') (ascii ''jpg'') = ascii ''Jo'' @ [0xE3] @ ascii ''o_Fev.jpg''
   \<and> nomeFormatado (capitalizeName latin1 (ascii ''Jo'' @ [0xE3] @ ascii ''o Silva''))
       (ascii ''Fevereiro'') (ascii ''.jpg'') = ascii ''Jo'' @ [0xE3] @ ascii ''o_Fev.jpg''"
proof -
  have "nomeFormatado n mes ext =
     takeWhile (\<lambda>c. c \<noteq> 0x20) n @ ascii ''_'' @ take 3 mes @
     (if startsWith ext (ascii ''.'') then ext else ascii ''.'' @ ext)" for n
    by (simp add: nomeFormatado_def Let_def firstPiece_splitSpace)
  moreover have "nomeFormatado (capitalizeName latin1 (ascii ''Jo'' @ [0xE3] @ ascii ''o Silva''))
       (ascii ''Fevereiro'') (ascii ''jpg'') = ascii ''Jo'' @ [0xE3] @ ascii ''o_Fev.jpg''"
    by (simp add: nomeFormatado_def capitalizeName_def capitalizeWord_def latin1_def ascii_def
        latin1_lower_unit_def latin1_upper_unit_def firstPiece_def)
  moreover have "nomeFormatado (capitalizeName latin1 (ascii ''Jo'' @ [0xE3] @ ascii ''o Silva''))
       (ascii ''Fevereiro'') (ascii ''.jpg'') = ascii ''Jo'' @ [0xE3] @ ascii ''o_Fev.jpg''"
    by (simp add: nomeFormatado_def capitalizeName_def capitalizeWord_def latin1_def ascii_def
        latin1_lower_unit_def latin1_upper_unit_def firstPiece_def)
  ultimately show ?thesis by blast
qed

text \<open>
  C8 as stated fails when the name is separated by whitespace other than a space: for
  \<open>Ana\<close>, tab, \<open>Silva\<close> the first whitespace-separated token of the capitalised name is
  \<open>Ana\<close>, and the file name keeps the whole name, tab included.
\<close>

theorem C8_tab_counterexample:
  "nomeFormatado (capitalizeName latin1 (ascii ''Ana'' @ [0x09] @ ascii ''Silva''))
       (ascii ''Fevereiro'') (ascii ''jpg'') = ascii ''Ana'' @ [0x09] @ ascii ''silva_Fev.jpg''
   \<and> firstWhitespaceToken (capitalizeName latin1 (ascii ''Ana'' @ [0x09] @ ascii ''Silva'')) = ascii ''Ana''
   \<and> nomeFormatado (capitalizeName latin1 (ascii ''Ana'' @ [0x09] @ ascii ''Silva''))
       (ascii ''Fevereiro'') (ascii ''jpg'') \<noteq>
     firstWhitespaceToken (capitalizeName latin1 (ascii ''Ana'' @ [0x09] @ ascii ''Silva'')) @
       ascii ''_'' @ take 3 (ascii ''Fevereiro'') @ ascii ''.jpg''"
  by (simp add: nomeFormatado_def capitalizeName_def capitalizeWord_def latin1_def ascii_def
        latin1_lower_unit_def latin1_upper_unit_def firstPiece_def firstWhitespaceToken_def isWhiteSpace_def)

section \<open>What an execution logs\<close>

lemma logsOnlyD:
  "logsOnly K m \<Longrightarrow> m w = (r, w') \<Longrightarrow>
     faults w' = faults w \<and> (\<exists>new. calls w' = calls w @ new \<and> (\<forall>c \<in> set new. K c))"
  unfolding logsOnly_def by blast

lemma logsOnly_mono: "logsOnly K m \<Longrightarrow> (\<And>c. K c \<Longrightarrow> K' c) \<Longrightarrow> logsOnly K' m"
  unfolding logsOnly_def by blast

lemma logsOnly_return: "logsOnly K (returnIO x)"
  unfolding logsOnly_def returnIO_def by auto

lemma logsOnly_throw: "logsOnly K (throwIO e)"
  unfolding logsOnly_def throwIO_def by auto

lemma logsOnly_bind:
  assumes m: "logsOnly K m" and f: "\<And>x. logsOnly K (f x)"
  shows "logsOnly K (bindIO m f)"
  unfolding logsOnly_def
proof (intro allI impI)
  fix w r w' assume run: "bindIO m f w = (r, w')"
  obtain r1 w1 where m1: "m w = (r1, w1)" by (cases "m w")
  from logsOnlyD [OF m m1] obtain n1 where
    1: "faults w1 = faults w" "calls w1 = calls w @ n1" "\<forall>c \<in> set n1. K c" by blast
  show "faults w' = faults w \<and> (\<exists>new. calls w' = calls w @ new \<and> (\<forall>c \<in> set new. K c))"
  proof (cases r1)
    case (Inl e)
    with run m1 have "w' = w1" by (simp add: bindIO_def)
    with 1 show ?thesis by blast
  next
    case (Inr x)
    with run m1 have "f x w1 = (r, w')" by (simp add: bindIO_def)
    from logsOnlyD [OF f this] obtain n2 where
      2: "faults w' = faults w1" "calls w' = calls w1 @ n2" "\<forall>c \<in> set n2. K c" by blast
    have "calls w' = calls w @ (n1 @ n2)" using 1 2 by simp
    moreover have "\<forall>c \<in> set (n1 @ n2). K c" using 1 2 by auto
    ultimately show ?thesis using 1 2 by metis
  qed
qed

lemma logsOnly_promiseAll2:
  assumes a: "logsOnly K a" and b: "logsOnly K b"
  shows "logsOnly K (promiseAll2 a b)"
  unfolding logsOnly_def
proof (intro allI impI)
  fix w r w' assume run: "promiseAll2 a b w = (r, w')"
  obtain ra w1 where a1: "a w = (ra, w1)" by (cases "a w")
  obtain rb w2 where b1: "b w1 = (rb, w2)" by (cases "b w1")
  from logsOnlyD [OF a a1] obtain n1 where
    1: "faults w1 = faults w" "calls w1 = calls w @ n1" "\<forall>c \<in> set n1. K c" by blast
  from logsOnlyD [OF b b1] obtain n2 where
    2: "faults w2 = faults w1" "calls w2 = calls w1 @ n2" "\<forall>c \<in> set n2. K c" by blast
  have "w' = w2" using run a1 b1 by (auto simp: promiseAll2_def split: sum.splits)
  moreover have "calls w2 = calls w @ (n1 @ n2)" using 1 2 by simp
  moreover have "\<forall>c \<in> set (n1 @ n2). K c" using 1 2 by auto
  ultimately show "faults w' = faults w \<and> (\<exists>new. calls w' = calls w @ new \<and> (\<forall>c \<in> set new. K c))"
    using 1 2 by metis
qed

lemma logsOnly_request:
  assumes "K c" and "\<And>w. faults (snd (serve w)) = faults w \<and> calls (snd (serve w)) = calls w"
  shows "logsOnly K (request c serve)"
  unfolding logsOnly_def
proof (intro allI impI)
  fix w r w' assume run: "request c serve w = (r, w')"
  let ?w1 = "w\<lparr>calls := calls w @ [c]\<rparr>"
  have s: "faults (snd (serve ?w1)) = faults w \<and> calls (snd (serve ?w1)) = calls w @ [c]"
    using assms(2) [of ?w1] by simp
  have "faults w' = faults w \<and> calls w' = calls w @ [c]"
    using run s by (auto simp: request_def Let_def split: option.splits prod.splits)
  then show "faults w' = faults w \<and> (\<exists>new. calls w' = calls w @ new \<and> (\<forall>c \<in> set new. K c))"
    using assms(1) by auto
qed

lemma logsOnly_sheetsGet: "K (SheetsGet (spreadsheetId cfg) r) \<Longrightarrow> logsOnly K (sheetsGet cfg r)"
  unfolding sheetsGet_def by (rule logsOnly_request) auto

lemma logsOnly_sheetsUpdate:
  "K (SheetsUpdate (spreadsheetId cfg) r v) \<Longrightarrow> logsOnly K (sheetsUpdate cfg r v)"
  unfolding sheetsUpdate_def by (rule logsOnly_request) auto


lemma logsOnly_driveCreate: "K (DriveCreate n ps mt b) \<Longrightarrow> logsOnly K (driveCreate n ps mt b)"
  unfolding driveCreate_def by (rule logsOnly_request) (auto split: prod.splits)

lemma logsOnly_readFile: "K (ReadFile p) \<Longrightarrow> logsOnly K (readFile p)"
  unfolding logsOnly_def readFile_def by auto

lemma logsOnly_args: "logsOnly isRead (planilha_args rt a2 arg3 custom)"
  unfolding planilha_args_def
  by (auto split: arg2.splits intro!: logsOnly_bind logsOnly_throw logsOnly_return logsOnly_readFile
      simp: isRead_def)


lemma logsOnly_locate: "logsOnly isRead (planilha_locate rt cfg nome mes)"
  unfolding planilha_locate_def Let_def
  by (auto intro!: logsOnly_bind logsOnly_promiseAll2 logsOnly_sheetsGet logsOnly_throw logsOnly_return
      simp: isRead_def)



lemma logsOnly_marcar: "logsOnly isSheetsCall (marcarComprovanteNaAbaMain rt cfg nome mes)"
  unfolding marcarComprovanteNaAbaMain_def Let_def
  by (auto intro!: logsOnly_bind logsOnly_promiseAll2 logsOnly_sheetsGet logsOnly_sheetsUpdate
        logsOnly_throw logsOnly_return
      simp: isSheetsCall_def)

lemma isRead_not_drive: "isRead c \<Longrightarrow> \<not> isDriveCall c"
  by (cases c) (auto simp: isRead_def isDriveCall_def)



lemma newCalls_append: "calls w' = calls w @ new \<Longrightarrow> newCalls w w' = new"
  by (simp add: newCalls_def)

section \<open>The steps, unfolded\<close>

lemma sheetsGet_run:
  "sheetsGet cfg r w =
     ((case faults w (length (calls w)) of Some e \<Rightarrow> Inl e | None \<Rightarrow> Inr (cells w r)),
      w\<lparr>calls := calls w @ [SheetsGet (spreadsheetId cfg) r]\<rparr>)"
  by (simp add: sheetsGet_def request_def Let_def split: option.splits)

lemma sheetsUpdate_run:
  "sheetsUpdate cfg r v w =
     (case faults w (length (calls w)) of
        Some e \<Rightarrow> (Inl e, w\<lparr>calls := calls w @ [SheetsUpdate (spreadsheetId cfg) r v]\<rparr>)
      | None \<Rightarrow>
          (Inr (), w\<lparr>calls := calls w @ [SheetsUpdate (spreadsheetId cfg) r v],
                     cells := (cells w)(r := Some [[Some (entered v)]])\<rparr>))"
  by (simp add: sheetsUpdate_def request_def Let_def split: option.splits)

text \<open>
  What Drive reads in the query of the program. A file name without a backslash comes
  back as it was, quotes included; so does a folder id without quote or backslash. A
  backslash in the file name is sent as it is and read by Drive as an escape.
\<close>

lemma startsWith_append: "startsWith (t @ q) t"
  unfolding startsWith_iff by blast

lemma quoted_escaped:
  "0x5C \<notin> set s \<Longrightarrow> quoted (escapeSingleQuotes s @ 0x27 # r) = Some (s, r)"
  by (induction s) (auto simp: escapeSingleQuotes_def)

lemma quoted_plain:
  "0x27 \<notin> set s \<Longrightarrow> 0x5C \<notin> set s \<Longrightarrow> quoted (s @ 0x27 # r) = Some (s, r)"
  by (induction s) auto

lemma parseQuery_driveQuery:
  assumes "0x5C \<notin> set fileName" and "0x27 \<notin> set (folderId cfg)" and "0x5C \<notin> set (folderId cfg)"
  shows "parseQuery (driveQuery cfg fileName) = Some (fileName, folderId cfg)"
proof -
  let ?r2 = "ascii '' in parents and trashed=false''"
  let ?r1 = "ascii '' and '' @ [0x27] @ folderId cfg @ [0x27] @ ?r2"
  have q: "driveQuery cfg fileName = (ascii ''name='' @ [0x27]) @ escapeSingleQuotes fileName @ 0x27 # ?r1"
    by (simp add: driveQuery_def)
  have s1: "startsWith (driveQuery cfg fileName) (ascii ''name='' @ [0x27])"
    unfolding q by (rule startsWith_append)
  have d1: "drop 6 (driveQuery cfg fileName) = escapeSingleQuotes fileName @ 0x27 # ?r1"
    unfolding q by (simp add: ascii_def)
  have q1: "quoted (drop 6 (driveQuery cfg fileName)) = Some (fileName, ?r1)"
    unfolding d1 using assms(1) by (rule quoted_escaped)
  have s2: "startsWith ?r1 (ascii '' and '' @ [0x27])"
    unfolding startsWith_iff by simp
  have d2: "drop 6 ?r1 = folderId cfg @ 0x27 # ?r2" by (simp add: ascii_def)
  have q2: "quoted (drop 6 ?r1) = Some (folderId cfg, ?r2)"
    unfolding d2 using assms(2,3) by (rule quoted_plain)
  show ?thesis
    unfolding parseQuery_def using s1 q1 s2 q2 by simp
qed

lemma driveSearch_calls: "driveSearch q (w\<lparr>calls := cs\<rparr>) = driveSearch q w"
  by (simp add: driveSearch_def split: option.splits prod.splits)

lemma driveSearch_plain:
  assumes "0x5C \<notin> set fileName" and "0x27 \<notin> set (folderId cfg)" and "0x5C \<notin> set (folderId cfg)"
  shows "driveSearch (driveQuery cfg fileName) w =
           Inr (take 1 (filter (namedIn fileName (folderId cfg)) (files w)))"
  by (simp add: driveSearch_def parseQuery_driveQuery [OF assms])

lemma driveList_run:
  "driveList cfg n w =
     ((case faults w (length (calls w)) of
         Some e \<Rightarrow> Inl e
       | None \<Rightarrow> driveSearch (driveQuery cfg n) w),
      w\<lparr>calls := calls w @ [DriveList (driveQuery cfg n)]\<rparr>)"
  by (simp add: driveList_def Let_def driveSearch_calls split: option.splits)

lemma driveCreate_run:
  "driveCreate n ps mt b w =
     (case faults w (length (calls w)) of
        Some e \<Rightarrow> (Inl e, w\<lparr>calls := calls w @ [DriveCreate n ps mt b]\<rparr>)
      | None \<Rightarrow>
          (Inr (assigned w (length (files w))),
           w\<lparr>calls := calls w @ [DriveCreate n ps mt b],
              files := files w @
                [\<lparr> file_id = fst (assigned w (length (files w))), file_name = n,
                   file_webViewLink = snd (assigned w (length (files w))),
                   file_parents = ps, file_trashed = False,
                   file_mimeType = mt, file_body = b \<rparr>]\<rparr>))"
  by (simp add: driveCreate_def request_def Let_def split: option.splits prod.splits)

lemma truthy_iff: "truthy x \<longleftrightarrow> (\<exists>v. x = Some v \<and> v \<noteq> [])"
  by (cases x) (auto simp: truthy_def)

lemma guard_run:
  "planilha_guard cfg nome mes tc w =
     ((case faults w (length (calls w)) of
         Some e \<Rightarrow> Inl e
       | None \<Rightarrow>
           (if truthy (firstCell (cells w tc))
            then Inl (ErrorObj (msgDuplicate nome mes tc (orEmpty (firstCell (cells w tc)))))
            else Inr ())),
      w\<lparr>calls := calls w @ [SheetsGet (spreadsheetId cfg) tc]\<rparr>)"
  by (auto simp add: planilha_guard_def bindIO_def sheetsGet_run Let_def throwIO_def returnIO_def
      truthy_def split: option.splits)

lemma artifact_run:
  "planilha_artifact cfg receipt w =
     (let wd = w\<lparr>calls := calls w @ [DriveList (driveQuery cfg (up_fileName receipt))]\<rparr>
      in case faults w (length (calls w)) of
           Some e \<Rightarrow> (Inl e, wd)
         | None \<Rightarrow>
             (case driveSearch (driveQuery cfg (up_fileName receipt)) w of
                Inl e \<Rightarrow> (Inl e, wd)
              | Inr (existingFile # _) \<Rightarrow>
                  (if \<not> truthy (file_id existingFile) \<or> \<not> truthy (file_webViewLink existingFile)
                   then (Inl (ErrorObj (msgExistingIncomplete (up_fileName receipt))), wd)
                   else (Inr (file_id existingFile, orEmpty (file_webViewLink existingFile)), wd))
              | Inr [] \<Rightarrow>
                  (case driveCreate (up_fileName receipt) [folderId cfg]
                          (case up_mimeType receipt of None \<Rightarrow> ascii ''image/jpeg'' | Some m \<Rightarrow> m)
                          (up_buffer receipt) wd of
                     (Inl e, wc) \<Rightarrow> (Inl e, wc)
                   | (Inr (newId, newLink), wc) \<Rightarrow>
                       (if \<not> truthy newLink then (Inl (ErrorObj msgNoLink), wc)
                        else (Inr (newId, orEmpty newLink), wc)))))"
  by (auto simp add: planilha_artifact_def bindIO_def driveList_run Let_def throwIO_def returnIO_def
      split: option.splits list.splits sum.splits prod.splits)

lemma take1_filter_cases:
  "take 1 (filter P xs) = (case filter P xs of [] \<Rightarrow> [] | f # _ \<Rightarrow> [f])"
  by (cases "filter P xs") auto

lemma artifact_run_plain:
  assumes "0x5C \<notin> set (up_fileName receipt)"
    and "0x27 \<notin> set (folderId cfg)" and "0x5C \<notin> set (folderId cfg)"
  shows "planilha_artifact cfg receipt w =
     (let wd = w\<lparr>calls := calls w @ [DriveList (driveQuery cfg (up_fileName receipt))]\<rparr>
      in case faults w (length (calls w)) of
           Some e \<Rightarrow> (Inl e, wd)
         | None \<Rightarrow>
             (case filter (namedIn (up_fileName receipt) (folderId cfg)) (files w) of
                existingFile # _ \<Rightarrow>
                  (if \<not> truthy (file_id existingFile) \<or> \<not> truthy (file_webViewLink existingFile)
                   then (Inl (ErrorObj (msgExistingIncomplete (up_fileName receipt))), wd)
                   else (Inr (file_id existingFile, orEmpty (file_webViewLink existingFile)), wd))
              | [] \<Rightarrow>
                  (case driveCreate (up_fileName receipt) [folderId cfg]
                          (case up_mimeType receipt of None \<Rightarrow> ascii ''image/jpeg'' | Some m \<Rightarrow> m)
                          (up_buffer receipt) wd of
                     (Inl e, wc) \<Rightarrow> (Inl e, wc)
                   | (Inr (newId, newLink), wc) \<Rightarrow>
                       (if \<not> truthy newLink then (Inl (ErrorObj msgNoLink), wc)
                        else (Inr (newId, orEmpty newLink), wc)))))"
  unfolding artifact_run driveSearch_plain [OF assms] take1_filter_cases
  by (simp add: Let_def split: option.splits list.splits)

lemma marcar_run:
  "marcarComprovanteNaAbaMain rt cfg nome mes w =
     (let g1 = SheetsGet (spreadsheetId cfg) (mainSheetName cfg @ ascii ''!'' @ nameRange cfg);
          g2 = SheetsGet (spreadsheetId cfg) (mainSheetName cfg @ ascii ''!'' @ headerRange cfg);
          w2 = w\<lparr>calls := calls w @ [g1, g2]\<rparr>;
          mainNames = flatValues (cells w (mainSheetName cfg @ ascii ''!'' @ nameRange cfg));
          mainHeaders = firstRow (cells w (mainSheetName cfg @ ascii ''!'' @ headerRange cfg));
          i = nomeIndex rt mainNames nome;
          m = mainMonthIndex rt mainHeaders mes
      in case faults w (length (calls w)) of
           Some e \<Rightarrow> (Inl e, w2)
         | None \<Rightarrow>
            (case faults w (Suc (length (calls w))) of
               Some e \<Rightarrow> (Inl e, w2)
             | None \<Rightarrow>
                 if i = - 1 then (Inl (ErrorObj (msgMainNameNotFound cfg nome)), w2)
                 else if m = - 1 then (Inl (ErrorObj (msgMainMonthNotFound cfg mes)), w2)
                 else sheetsUpdate cfg
                        (cellAddress (mainSheetName cfg) (getColumnFromOffset cfg m)
                           (nat i + nameStartRow cfg))
                        (Mark True) w2))"
  by (auto simp add: marcarComprovanteNaAbaMain_def bindIO_def promiseAll2_def sheetsGet_run Let_def
      throwIO_def split: option.splits)

lemma planilha_to_guard:
  assumes "spreadsheetId cfg \<noteq> []" "folderId cfg \<noteq> []" "refreshToken cfg \<noteq> []"
    and "planilha_args rt a2 arg3 custom w = (Inr (mes, receipt), w0)"
    and "planilha_locate rt cfg nome mes w0 = (Inr tc, w1)"
  shows "planilha rt cfg nome a2 arg3 custom w =
     bindIO (planilha_guard cfg nome mes tc) (\<lambda>_.
       bindIO (planilha_artifact cfg receipt) (\<lambda>(fileId, fileLink).
       bindIO (sheetsUpdate cfg tc (Formula (hyperlink cfg fileLink (up_fileName receipt)))) (\<lambda>_.
       marcarComprovanteNaAbaMain rt cfg nome mes))) w1"
  using assms by (simp add: planilha_def bindIO_def getAuthClient_def returnIO_def)

lemma reads_before_guard:
  assumes "planilha_args rt a2 arg3 custom w = (Inr (mes, receipt), w0)"
    and "planilha_locate rt cfg nome mes w0 = (Inr tc, w1)"
  shows "\<exists>pre. calls w1 = calls w @ pre \<and> (\<forall>c \<in> set pre. isRead c)"
proof -
  from logsOnlyD [OF logsOnly_args assms(1)] obtain n0 where
    0: "calls w0 = calls w @ n0" "\<forall>c \<in> set n0. isRead c" by blast
  from logsOnlyD [OF logsOnly_locate assms(2)] obtain n1 where
    1: "calls w1 = calls w0 @ n1" "\<forall>c \<in> set n1. isRead c" by blast
  have "calls w1 = calls w @ (n0 @ n1)" using 0 1 by simp
  moreover have "\<forall>c \<in> set (n0 @ n1). isRead c" using 0 1 by auto
  ultimately show ?thesis by blast
qed

lemma artifact_first_call:
  "planilha_artifact cfg receipt w = (r, w') \<Longrightarrow>
     \<exists>more. calls w' = calls w @ DriveList (driveQuery cfg (up_fileName receipt)) # more"
proof -
  assume run: "planilha_artifact cfg receipt w = (r, w')"
  let ?q = "DriveList (driveQuery cfg (up_fileName receipt))"
  let ?wd = "w\<lparr>calls := calls w @ [?q]\<rparr>"
  show ?thesis
  proof (cases "faults w (length (calls w))")
    case (Some e)
    with run have "w' = ?wd"
      by (simp add: planilha_artifact_def bindIO_def driveList_run)
    then show ?thesis by simp
  next
    case None
    show ?thesis
    proof (cases "driveSearch (driveQuery cfg (up_fileName receipt)) w")
      case (Inl e)
      with run None have "w' = ?wd"
        by (simp add: planilha_artifact_def bindIO_def driveList_run)
      then show ?thesis by simp
    next
    case (Inr found)
    show ?thesis
    proof (cases found)
      case Nil
      let ?create = "driveCreate (up_fileName receipt) [folderId cfg]
                   (case up_mimeType receipt of None \<Rightarrow> ascii ''image/jpeg'' | Some m \<Rightarrow> m)
                   (up_buffer receipt)"
      let ?k = "\<lambda>(newId, newLink).
                   if \<not> truthy newLink then throwIO (ErrorObj msgNoLink)
                   else returnIO (newId, orEmpty newLink)"
      have "bindIO ?create ?k ?wd = (r, w')"
        using run None Inr Nil
        by (simp add: planilha_artifact_def bindIO_def driveList_run)
      moreover have "logsOnly (\<lambda>_. True) (bindIO ?create ?k)"
        by (auto intro!: logsOnly_bind logsOnly_driveCreate logsOnly_throw logsOnly_return)
      ultimately obtain more where "calls w' = calls ?wd @ more"
        using logsOnlyD by blast
      then show ?thesis by simp
    next
      case (Cons f fs)
      with run None Inr have "w' = ?wd"
        by (auto simp add: planilha_artifact_def bindIO_def driveList_run
            throwIO_def returnIO_def split: if_splits)
      then show ?thesis by simp
    qed
    qed
  qed
qed

lemma tail_first_call:
  assumes "bindIO (planilha_artifact cfg receipt) (\<lambda>(fileId, fileLink).
       bindIO (sheetsUpdate cfg tc (Formula (hyperlink cfg fileLink (up_fileName receipt)))) (\<lambda>_.
       marcarComprovanteNaAbaMain rt cfg nome mes)) w = (r, w')"
  shows "\<exists>more. calls w' = calls w @ DriveList (driveQuery cfg (up_fileName receipt)) # more"
proof -
  obtain ra wa where a: "planilha_artifact cfg receipt w = (ra, wa)"
    by (cases "planilha_artifact cfg receipt w")
  from artifact_first_call [OF a] obtain m1 where
    m1: "calls wa = calls w @ DriveList (driveQuery cfg (up_fileName receipt)) # m1" by blast
  show ?thesis
  proof (cases ra)
    case (Inl e)
    with assms a have "w' = wa" by (simp add: bindIO_def)
    with m1 show ?thesis by blast
  next
    case (Inr x)
    obtain fileId fileLink where x: "x = (fileId, fileLink)" by (cases x)
    let ?rest = "bindIO (sheetsUpdate cfg tc (Formula (hyperlink cfg fileLink (up_fileName receipt))))
       (\<lambda>_. marcarComprovanteNaAbaMain rt cfg nome mes)"
    have "?rest wa = (r, w')" using assms a Inr x by (simp add: bindIO_def)
    moreover have "logsOnly (\<lambda>_. True) ?rest"
      by (intro logsOnly_bind logsOnly_sheetsUpdate logsOnly_mono [OF logsOnly_marcar]) auto
    ultimately obtain m2 where "calls w' = calls wa @ m2" using logsOnlyD by blast
    with m1 show ?thesis by simp
  qed
qed

section \<open>The example world, evaluated\<close>

lemma showNat_small: "n < 10 \<Longrightarrow> showNat n = [0x30 + n]"
  by (simp add: showNat.simps)

lemmas showNat_numeral = showNat.simps [of "numeral k" for k] showNat_small

lemmas latin1_eval = latin1_def latin1_nfd_unit_def latin1_decomposition_def latin1_lower_unit_def
  latin1_upper_unit_def isCombiningMark_def trim_def isWhiteSpace_def normalizeText_def orEmpty_def

lemma nameRange_default: "nameRange defaultConfig = ascii ''A2:A29''"
  by (simp add: nameRange_def defaultConfig_def ascii_def showNat_numeral)

lemma headerRange_default: "headerRange defaultConfig = ascii ''B1:L1''"
  by (simp add: headerRange_def defaultConfig_def ascii_def showNat_numeral)

lemma locate_example:
  assumes "faults w = (\<lambda>_. None)"
    and "cells w (ascii ''Comprovantes!A2:A29'') = exampleLedger (ascii ''Comprovantes!A2:A29'')"
    and "cells w (ascii ''Comprovantes!B1:L1'') = exampleLedger (ascii ''Comprovantes!B1:L1'')"
  shows "planilha_locate latin1 defaultConfig (ascii ''Ana'') (ascii ''Fevereiro'') w =
     (Inr (ascii ''Comprovantes!C2''),
      w\<lparr>calls := calls w @ [SheetsGet (ascii ''sheet-1'') (ascii ''Comprovantes!A2:A29''),
                      SheetsGet (ascii ''sheet-1'') (ascii ''Comprovantes!B1:L1'')]\<rparr>)"
  unfolding planilha_locate_def nameRange_default headerRange_default
  using assms
  apply (simp add: bindIO_def promiseAll2_def sheetsGet_run Let_def)
  apply (simp add: defaultConfig_def ascii_def exampleLedger_def flatValues_def firstRow_def
      nomeIndex_def colIndex_def latin1_eval returnIO_def throwIO_def cellAddress_def
      getColumnFromOffset_def showNat_numeral)
  done

lemma marcar_example:
  assumes "faults w = (\<lambda>_. None)"
    and "cells w (ascii ''Main!A2:A29'') = exampleLedger (ascii ''Main!A2:A29'')"
    and "cells w (ascii ''Main!B1:L1'') = exampleLedger (ascii ''Main!B1:L1'')"
  shows "marcarComprovanteNaAbaMain latin1 defaultConfig (ascii ''Ana'') (ascii ''Fevereiro'') w =
     (Inr (),
      w\<lparr>calls := calls w @ [SheetsGet (ascii ''sheet-1'') (ascii ''Main!A2:A29''),
                      SheetsGet (ascii ''sheet-1'') (ascii ''Main!B1:L1''),
                      SheetsUpdate (ascii ''sheet-1'') (ascii ''Main!C2'') (Mark True)],
         cells := (cells w)(ascii ''Main!C2'' := Some [[Some (ascii ''TRUE'')]])\<rparr>)"
  unfolding marcar_run nameRange_default headerRange_default
  using assms
  apply (simp add: Let_def)
  apply (simp add: defaultConfig_def ascii_def exampleLedger_def flatValues_def firstRow_def
      nomeIndex_def mainMonthIndex_def latin1_eval cellAddress_def sheetsUpdate_run entered_def
      getColumnFromOffset_def showNat_numeral)
  done

lemma args_upload:
  "planilha_args rt (Upload receipt) (Some (ascii ''Fevereiro'')) None w =
     (Inr (ascii ''Fevereiro'', receipt), w)"
  by (simp add: planilha_args_def truthy_def ascii_def returnIO_def orEmpty_def)

lemma default_configured:
  "spreadsheetId defaultConfig \<noteq> []" "folderId defaultConfig \<noteq> []" "refreshToken defaultConfig \<noteq> []"
  by (simp_all add: defaultConfig_def ascii_def)

lemma sheet_default: "spreadsheetId defaultConfig = ascii ''sheet-1''"
  by (simp add: defaultConfig_def)

lemma filled_cells:
  "cells filledWorld (ascii ''Comprovantes!A2:A29'') = exampleLedger (ascii ''Comprovantes!A2:A29'')"
  "cells filledWorld (ascii ''Comprovantes!B1:L1'') = exampleLedger (ascii ''Comprovantes!B1:L1'')"
  "firstCell (cells filledWorld (ascii ''Comprovantes!C2'')) = Some (ascii '' '')"
  "faults filledWorld = (\<lambda>_. None)" "calls filledWorld = []"
  by (simp_all add: filledWorld_def exampleWorld_def ascii_def firstCell_def firstRow_def)

lemma example_cells:
  "cells exampleWorld = exampleLedger" "faults exampleWorld = (\<lambda>_. None)" "calls exampleWorld = []"
  "files exampleWorld = []" "firstCell (exampleLedger (ascii ''Comprovantes!C2'')) = None"
  by (simp_all add: exampleWorld_def exampleLedger_def ascii_def firstCell_def firstRow_def)

lemma ana_plain: "0x5C \<notin> set (ascii ''Ana_Fev.jpg'')"
  by (simp add: ascii_def)

lemma default_plain: "0x27 \<notin> set (folderId defaultConfig)" "0x5C \<notin> set (folderId defaultConfig)"
  by (simp_all add: defaultConfig_def ascii_def)

lemma artifact_run_ana:
  "up_fileName receipt = ascii ''Ana_Fev.jpg'' \<Longrightarrow>
   planilha_artifact defaultConfig receipt w =
     (let wd = w\<lparr>calls := calls w @ [DriveList (driveQuery defaultConfig (ascii ''Ana_Fev.jpg''))]\<rparr>
      in case faults w (length (calls w)) of
           Some e \<Rightarrow> (Inl e, wd)
         | None \<Rightarrow>
             (case filter (namedIn (ascii ''Ana_Fev.jpg'') (folderId defaultConfig)) (files w) of
                existingFile # _ \<Rightarrow>
                  (if \<not> truthy (file_id existingFile) \<or> \<not> truthy (file_webViewLink existingFile)
                   then (Inl (ErrorObj (msgExistingIncomplete (ascii ''Ana_Fev.jpg''))), wd)
                   else (Inr (file_id existingFile, orEmpty (file_webViewLink existingFile)), wd))
              | [] \<Rightarrow>
                  (case driveCreate (ascii ''Ana_Fev.jpg'') [folderId defaultConfig]
                          (case up_mimeType receipt of None \<Rightarrow> ascii ''image/jpeg'' | Some m \<Rightarrow> m)
                          (up_buffer receipt) wd of
                     (Inl e, wc) \<Rightarrow> (Inl e, wc)
                   | (Inr (newId, newLink), wc) \<Rightarrow>
                       (if \<not> truthy newLink then (Inl (ErrorObj msgNoLink), wc)
                        else (Inr (newId, orEmpty newLink), wc)))))"
proof -
  assume n: "up_fileName receipt = ascii ''Ana_Fev.jpg''"
  have p: "0x5C \<notin> set (up_fileName receipt)" unfolding n by (rule ana_plain)
  show ?thesis unfolding artifact_run_plain [OF p default_plain] n by (rule refl)
qed

lemma artifact_example:
  "fst (planilha_artifact defaultConfig exampleReceipt exampleWorld) =
     Inr (Some (ascii ''id-0''), ascii ''https://drive.example/0'')"
  "files (snd (planilha_artifact defaultConfig exampleReceipt exampleWorld)) =
     [\<lparr> file_id = Some (ascii ''id-0''), file_name = ascii ''Ana_Fev.jpg'',
        file_webViewLink = Some (ascii ''https://drive.example/0''),
        file_parents = [ascii ''folder-1''], file_trashed = False,
        file_mimeType = ascii ''image/jpeg'', file_body = [0xFF, 0xD8] \<rparr>]"
proof -
  have n: "up_fileName exampleReceipt = ascii ''Ana_Fev.jpg''" by (simp add: exampleReceipt_def)
  show "fst (planilha_artifact defaultConfig exampleReceipt exampleWorld) =
     Inr (Some (ascii ''id-0''), ascii ''https://drive.example/0'')"
    unfolding artifact_run_ana [OF n]
    by (simp add: driveCreate_run Let_def example_cells exampleWorld_def
      exampleReceipt_def defaultConfig_def truthy_def orEmpty_def ascii_def showNat_numeral)
  show "files (snd (planilha_artifact defaultConfig exampleReceipt exampleWorld)) =
     [\<lparr> file_id = Some (ascii ''id-0''), file_name = ascii ''Ana_Fev.jpg'',
        file_webViewLink = Some (ascii ''https://drive.example/0''),
        file_parents = [ascii ''folder-1''], file_trashed = False,
        file_mimeType = ascii ''image/jpeg'', file_body = [0xFF, 0xD8] \<rparr>]"
    unfolding artifact_run_ana [OF n]
    by (simp add: driveCreate_run Let_def example_cells exampleWorld_def
      exampleReceipt_def defaultConfig_def truthy_def orEmpty_def ascii_def showNat_numeral)
qed

lemma planilha_example:
  "fst (planilha latin1 defaultConfig (ascii ''Ana'') (Upload exampleReceipt)
          (Some (ascii ''Fevereiro'')) None exampleWorld) = Inr ()"
  "calls (snd (planilha latin1 defaultConfig (ascii ''Ana'') (Upload exampleReceipt)
          (Some (ascii ''Fevereiro'')) None exampleWorld)) =
     [SheetsGet (ascii ''sheet-1'') (ascii ''Comprovantes!A2:A29''),
      SheetsGet (ascii ''sheet-1'') (ascii ''Comprovantes!B1:L1''),
      SheetsGet (ascii ''sheet-1'') (ascii ''Comprovantes!C2''),
      DriveList (driveQuery defaultConfig (ascii ''Ana_Fev.jpg'')),
      DriveCreate (ascii ''Ana_Fev.jpg'') [ascii ''folder-1''] (ascii ''image/jpeg'') [0xFF, 0xD8],
      SheetsUpdate (ascii ''sheet-1'') (ascii ''Comprovantes!C2'')
        (Formula (ascii ''=HYPERLINK('' @ [0x22] @ ascii ''https://drive.example/0'' @ [0x22] @
                  ascii '';'' @ [0x22] @ ascii ''Ana_Fev.jpg'' @ [0x22] @ ascii '')'')),
      SheetsGet (ascii ''sheet-1'') (ascii ''Main!A2:A29''),
      SheetsGet (ascii ''sheet-1'') (ascii ''Main!B1:L1''),
      SheetsUpdate (ascii ''sheet-1'') (ascii ''Main!C2'') (Mark True)]"
proof -
  let ?w1 = "exampleWorld\<lparr>calls := calls exampleWorld @
               [SheetsGet (ascii ''sheet-1'') (ascii ''Comprovantes!A2:A29''),
                SheetsGet (ascii ''sheet-1'') (ascii ''Comprovantes!B1:L1'')]\<rparr>"
  have loc: "planilha_locate latin1 defaultConfig (ascii ''Ana'') (ascii ''Fevereiro'') exampleWorld =
               (Inr (ascii ''Comprovantes!C2''), ?w1)"
    by (rule locate_example) (simp_all add: example_cells)
  note run = planilha_to_guard [OF default_configured args_upload loc]
  have m: "\<And>w. faults w = (\<lambda>_. None) \<Longrightarrow>
             cells w (ascii ''Main!A2:A29'') = exampleLedger (ascii ''Main!A2:A29'') \<Longrightarrow>
             cells w (ascii ''Main!B1:L1'') = exampleLedger (ascii ''Main!B1:L1'') \<Longrightarrow>
             marcarComprovanteNaAbaMain latin1 defaultConfig (ascii ''Ana'') (ascii ''Fevereiro'') w =
     (Inr (),
      w\<lparr>calls := calls w @ [SheetsGet (ascii ''sheet-1'') (ascii ''Main!A2:A29''),
                      SheetsGet (ascii ''sheet-1'') (ascii ''Main!B1:L1''),
                      SheetsUpdate (ascii ''sheet-1'') (ascii ''Main!C2'') (Mark True)],
         cells := (cells w)(ascii ''Main!C2'' := Some [[Some (ascii ''TRUE'')]])\<rparr>)"
    by (rule marcar_example)
  have ne: "ascii ''Main!A2:A29'' \<noteq> ascii ''Comprovantes!C2''"
    "ascii ''Main!B1:L1'' \<noteq> ascii ''Comprovantes!C2''" by (simp_all add: ascii_def)
  have link: "ascii ''https://drive.example/'' \<noteq> []" by (simp add: ascii_def)
  show "fst (planilha latin1 defaultConfig (ascii ''Ana'') (Upload exampleReceipt)
          (Some (ascii ''Fevereiro'')) None exampleWorld) = Inr ()"
    unfolding run
    by (simp add: bindIO_def guard_run artifact_run_ana driveCreate_run sheetsUpdate_run Let_def
        example_cells truthy_def orEmpty_def exampleReceipt_def m ne link
        exampleWorld_def [THEN arg_cong [of _ _ assigned], simplified])
  show "calls (snd (planilha latin1 defaultConfig (ascii ''Ana'') (Upload exampleReceipt)
          (Some (ascii ''Fevereiro'')) None exampleWorld)) =
     [SheetsGet (ascii ''sheet-1'') (ascii ''Comprovantes!A2:A29''),
      SheetsGet (ascii ''sheet-1'') (ascii ''Comprovantes!B1:L1''),
      SheetsGet (ascii ''sheet-1'') (ascii ''Comprovantes!C2''),
      DriveList (driveQuery defaultConfig (ascii ''Ana_Fev.jpg'')),
      DriveCreate (ascii ''Ana_Fev.jpg'') [ascii ''folder-1''] (ascii ''image/jpeg'') [0xFF, 0xD8],
      SheetsUpdate (ascii ''sheet-1'') (ascii ''Comprovantes!C2'')
        (Formula (ascii ''=HYPERLINK('' @ [0x22] @ ascii ''https://drive.example/0'' @ [0x22] @
                  ascii '';'' @ [0x22] @ ascii ''Ana_Fev.jpg'' @ [0x22] @ ascii '')'')),
      SheetsGet (ascii ''sheet-1'') (ascii ''Main!A2:A29''),
      SheetsGet (ascii ''sheet-1'') (ascii ''Main!B1:L1''),
      SheetsUpdate (ascii ''sheet-1'') (ascii ''Main!C2'') (Mark True)]"
    unfolding run
    apply (simp add: bindIO_def guard_run artifact_run_ana driveCreate_run sheetsUpdate_run Let_def
        example_cells truthy_def orEmpty_def exampleReceipt_def m ne link
        exampleWorld_def [THEN arg_cong [of _ _ assigned], simplified])
    apply (simp add: hyperlink_def doubleQuotes_def showNat_numeral ascii_def defaultConfig_def)
    done
qed

lemma planilha_filled:
  assumes "faults w = (\<lambda>_. None)" and "cells w = cells filledWorld"
  shows "planilha latin1 defaultConfig (ascii ''Ana'') (Upload receipt) (Some (ascii ''Fevereiro''))
           None w =
         (Inl (ErrorObj (msgDuplicate (ascii ''Ana'') (ascii ''Fevereiro'')
                           (ascii ''Comprovantes!C2'') (ascii '' ''))),
          w\<lparr>calls := calls w @
               [SheetsGet (ascii ''sheet-1'') (ascii ''Comprovantes!A2:A29''),
                SheetsGet (ascii ''sheet-1'') (ascii ''Comprovantes!B1:L1''),
                SheetsGet (ascii ''sheet-1'') (ascii ''Comprovantes!C2'')]\<rparr>)"
proof -
  let ?w1 = "w\<lparr>calls := calls w @
               [SheetsGet (ascii ''sheet-1'') (ascii ''Comprovantes!A2:A29''),
                SheetsGet (ascii ''sheet-1'') (ascii ''Comprovantes!B1:L1'')]\<rparr>"
  have loc: "planilha_locate latin1 defaultConfig (ascii ''Ana'') (ascii ''Fevereiro'') w =
               (Inr (ascii ''Comprovantes!C2''), ?w1)"
    by (rule locate_example) (simp_all add: assms filled_cells)
  have sp: "ascii '' '' \<noteq> []" by (simp add: ascii_def)
  show ?thesis
    unfolding planilha_to_guard [OF default_configured args_upload loc]
    by (simp add: bindIO_def guard_run assms filled_cells truthy_def orEmpty_def sheet_default sp)
qed

lemma capitalize_ana: "capitalizeName latin1 (ascii ''ANA'') = ascii ''Ana''"
  by (simp add: capitalizeName_def capitalizeWord_def latin1_eval ascii_def)

lemma month_example:
  "monthLong w = ascii ''fevereiro'' \<Longrightarrow> getCurrentMonthName latin1 w = (Inr (ascii ''Fevereiro''), w)"
  by (simp add: getCurrentMonthName_def isWordChar_def latin1_eval ascii_def)

lemma trim_plain:
  "trim (ascii ''ANA'') = ascii ''ANA''" "trim naoEPix = naoEPix"
  by (simp_all add: trim_def isWhiteSpace_def ascii_def naoEPix_def)




lemma backslash_query:
  "driveQuery defaultConfig (up_fileName backslashReceipt) =
     ascii ''name='' @ [0x27] @ ascii ''A'' @ [0x5C, 0x5C] @ ascii ''_Fev.jpg'' @ [0x27] @
     ascii '' and '' @ [0x27] @ ascii ''folder-1'' @ [0x27] @ ascii '' in parents and trashed=false''"
  "parseQuery (driveQuery defaultConfig (up_fileName backslashReceipt)) =
     Some (ascii ''A'' @ [0x5C] @ ascii ''_Fev.jpg'', ascii ''folder-1'')"
  by (simp_all add: driveQuery_def parseQuery_def backslashReceipt_def defaultConfig_def
      escapeSingleQuotes_def ascii_def)

lemma backslash_search:
  "driveSearch (driveQuery defaultConfig (up_fileName (backslashReceipt\<lparr>up_buffer := b\<rparr>))) w =
     Inr (take 1 (filter (namedIn (ascii ''A'' @ [0x5C] @ ascii ''_Fev.jpg'') (ascii ''folder-1''))
                    (files w)))"
  using backslash_query(2) by (simp add: driveSearch_def)

section \<open>Column lookup on the sheet of receipts\<close>

text \<open>
  C1 (the code at the failing input). The column lookup of \<open>planilha\<close> compares the raw
  header with the raw period name. For the header \<open>Comp - Marco\<close> and the period
  \<open>marco\<close> (with its cedilla) it returns \<open>-1\<close>, although the normalised header
  contains the normalised period name and the raw header contains the marker \<open>Comp\<close>;
  the lookup of \<open>marcarComprovanteNaAbaMain\<close>, which normalises both sides, finds the
  same header at index 0. On a spreadsheet with such headers \<open>planilha\<close> throws the
  column-not-found error, where \<open>marcarComprovanteNaAbaMain\<close> finds its column and
  succeeds.
\<close>

theorem C1_colIndex_raw:
  "colIndex [Some (ascii ''Comp - Marco'')] marco = - 1
   \<and> normalizeText latin1 marco = ascii ''marco''
   \<and> includesStr (normalizeText latin1 (ascii ''Comp - Marco'')) (normalizeText latin1 marco)
   \<and> includesStr (ascii ''Comp - Marco'') (ascii ''Comp'')
   \<and> mainMonthIndex latin1 [Some (ascii ''Comp - Marco'')] marco = 0
   \<and> fst (planilha latin1 defaultConfig (ascii ''Ana'') (Upload exampleReceipt) (Some marco) None
            marcoWorld) =
       Inl (ErrorObj (msgColumnNotFound defaultConfig marco))
   \<and> fst (marcarComprovanteNaAbaMain latin1 defaultConfig (ascii ''Ana'') marco marcoWorld) = Inr ()"
proof -
  have pure: "colIndex [Some (ascii ''Comp - Marco'')] marco = - 1
   \<and> normalizeText latin1 marco = ascii ''marco''
   \<and> includesStr (normalizeText latin1 (ascii ''Comp - Marco'')) (normalizeText latin1 marco)
   \<and> includesStr (ascii ''Comp - Marco'') (ascii ''Comp'')
   \<and> mainMonthIndex latin1 [Some (ascii ''Comp - Marco'')] marco = 0"
    by (simp add: colIndex_def mainMonthIndex_def latin1_eval ascii_def marco_def)
  have c: "faults marcoWorld = (\<lambda>_. None)" "calls marcoWorld = []"
    "cells marcoWorld (ascii ''Comprovantes!A2:A29'') = Some [[Some (ascii ''Ana'')], [Some (ascii ''Bruno'')]]"
    "cells marcoWorld (ascii ''Comprovantes!B1:L1'') =
       Some [[Some (ascii ''Comp - Fevereiro''), Some (ascii ''Comp - Marco'')]]"
    "cells marcoWorld (ascii ''Main!A2:A29'') = Some [[Some (ascii ''Ana'')], [Some (ascii ''Bruno'')]]"
    "cells marcoWorld (ascii ''Main!B1:L1'') = Some [[Some (ascii ''Fevereiro''), Some (ascii ''Marco'')]]"
    by (simp_all add: marcoWorld_def exampleWorld_def exampleLedger_def ascii_def)
  have ne: "marco \<noteq> []" by (simp add: marco_def)
  have args: "planilha_args latin1 (Upload exampleReceipt) (Some marco) None marcoWorld =
                (Inr (marco, exampleReceipt), marcoWorld)"
    by (simp add: planilha_args_def truthy_def ne returnIO_def orEmpty_def)
  have "fst (planilha_locate latin1 defaultConfig (ascii ''Ana'') marco marcoWorld) =
             Inl (ErrorObj (msgColumnNotFound defaultConfig marco))"
    unfolding planilha_locate_def nameRange_default headerRange_default
    using c
    apply (simp add: bindIO_def promiseAll2_def sheetsGet_run Let_def)
    apply (simp add: defaultConfig_def ascii_def flatValues_def firstRow_def nomeIndex_def
        colIndex_def latin1_eval throwIO_def msgColumnNotFound_def marco_def)
    done
  then obtain w1 where loc: "planilha_locate latin1 defaultConfig (ascii ''Ana'') marco marcoWorld =
      (Inl (ErrorObj (msgColumnNotFound defaultConfig marco)), w1)"
    by (cases "planilha_locate latin1 defaultConfig (ascii ''Ana'') marco marcoWorld") auto
  have p: "fst (planilha latin1 defaultConfig (ascii ''Ana'') (Upload exampleReceipt) (Some marco) None
                  marcoWorld) =
       Inl (ErrorObj (msgColumnNotFound defaultConfig marco))"
    using default_configured
    by (simp add: planilha_def bindIO_def args loc getAuthClient_def returnIO_def)
  have m: "fst (marcarComprovanteNaAbaMain latin1 defaultConfig (ascii ''Ana'') marco marcoWorld) = Inr ()"
    unfolding marcar_run nameRange_default headerRange_default
    using c
    apply (simp add: Let_def)
    apply (simp add: defaultConfig_def ascii_def flatValues_def firstRow_def nomeIndex_def
        mainMonthIndex_def latin1_eval sheetsUpdate_run marco_def)
    done
  from pure p m show ?thesis by blast
qed

section \<open>Duplicate guard\<close>

lemma duplicate_no_drive:
  assumes "spreadsheetId cfg \<noteq> []" "folderId cfg \<noteq> []" "refreshToken cfg \<noteq> []"
    and "planilha_args rt a2 arg3 custom w = (Inr (mes, receipt), w0)"
    and "planilha_locate rt cfg nome mes w0 = (Inr targetCell, w1)"
    and "faults w1 (length (calls w1)) = None"
    and "firstCell (cells w1 targetCell) = Some existingValue" "existingValue \<noteq> []"
  shows "\<exists>w'. planilha rt cfg nome a2 arg3 custom w =
            (Inl (ErrorObj (msgDuplicate nome mes targetCell existingValue)), w')
          \<and> (\<forall>c \<in> set (newCalls w w'). \<not> isDriveCall c)
          \<and> files w' = files w1"
proof -
  let ?w' = "w1\<lparr>calls := calls w1 @ [SheetsGet (spreadsheetId cfg) targetCell]\<rparr>"
  have run: "planilha rt cfg nome a2 arg3 custom w =
      (Inl (ErrorObj (msgDuplicate nome mes targetCell existingValue)), ?w')"
    unfolding planilha_to_guard [OF assms(1-5)]
    using assms(6-8) by (simp add: bindIO_def guard_run truthy_def orEmpty_def)
  from reads_before_guard [OF assms(4,5)] obtain pre where
    pre: "calls w1 = calls w @ pre" "\<forall>c \<in> set pre. isRead c" by blast
  have "newCalls w ?w' = pre @ [SheetsGet (spreadsheetId cfg) targetCell]"
    using pre(1) by (simp add: newCalls_def)
  moreover have "\<not> isDriveCall (SheetsGet (spreadsheetId cfg) targetCell)"
    by (simp add: isDriveCall_def)
  ultimately have "\<forall>c \<in> set (newCalls w ?w'). \<not> isDriveCall c"
    using pre(2) by (auto dest: isRead_not_drive)
  with run show ?thesis by auto
qed

lemma no_drive_vacuous:
  assumes "calls w' = calls w @ new" "\<forall>c \<in> set new. isRead c"
  shows "\<forall>i < length (newCalls w w'). isDriveCall (newCalls w w' ! i) \<longrightarrow> Q i"
proof (intro allI impI)
  fix i assume "i < length (newCalls w w')" "isDriveCall (newCalls w w' ! i)"
  moreover have "newCalls w w' = new" using assms(1) by (simp add: newCalls_def)
  ultimately have "new ! i \<in> set new" "isDriveCall (new ! i)" by simp_all
  with assms(2) isRead_not_drive show "Q i" by blast
qed

lemma drive_after_cell_read:
  assumes run: "planilha rt cfg nome a2 arg3 custom w = (res, w')"
  shows "\<forall>i < length (newCalls w w'). isDriveCall (newCalls w w' ! i) \<longrightarrow>
           (\<exists>j < i. \<exists>mes receipt w0 targetCell w1.
              planilha_args rt a2 arg3 custom w = (Inr (mes, receipt), w0) \<and>
              planilha_locate rt cfg nome mes w0 = (Inr targetCell, w1) \<and>
              length (calls w1) = length (calls w) + j \<and>
              newCalls w w' ! j = SheetsGet (spreadsheetId cfg) targetCell \<and>
              faults w1 (length (calls w1)) = None \<and>
              \<not> truthy (firstCell (cells w1 targetCell)))"
    (is "\<forall>i < _. _ \<longrightarrow> ?Q i")
proof (cases "spreadsheetId cfg = [] \<or> folderId cfg = []")
  case True
  with run have "calls w' = calls w @ []" by (auto simp: planilha_def throwIO_def)
  then show ?thesis by (rule no_drive_vacuous) simp
next
  case cfg: False
  obtain ra w0 where args: "planilha_args rt a2 arg3 custom w = (ra, w0)"
    by (cases "planilha_args rt a2 arg3 custom w")
  from logsOnlyD [OF logsOnly_args args] obtain n0 where
    n0: "calls w0 = calls w @ n0" "\<forall>c \<in> set n0. isRead c" by blast
  show ?thesis
  proof (cases ra)
    case (Inl e)
    with run cfg args have "w' = w0" by (simp add: planilha_def bindIO_def)
    with n0 show ?thesis using no_drive_vacuous by blast
  next
    case (Inr x)
    obtain mes receipt where x: "x = (mes, receipt)" by (cases x)
    note args' = args [unfolded Inr x]
    show ?thesis
    proof (cases "refreshToken cfg = []")
      case True
      with run cfg args' have "w' = w0"
        by (simp add: planilha_def bindIO_def getAuthClient_def throwIO_def)
      with n0 show ?thesis using no_drive_vacuous by blast
    next
      case tok: False
      obtain rl w1 where loc: "planilha_locate rt cfg nome mes w0 = (rl, w1)"
        by (cases "planilha_locate rt cfg nome mes w0")
      from logsOnlyD [OF logsOnly_locate loc] obtain n1 where
        n1: "calls w1 = calls w0 @ n1" "\<forall>c \<in> set n1. isRead c" by blast
      have "calls w1 = calls w @ (n0 @ n1)" "\<forall>c \<in> set (n0 @ n1). isRead c"
        using n0 n1 by auto
      then obtain pre where pre: "calls w1 = calls w @ pre" "\<forall>c \<in> set pre. isRead c"
        by blast
      show ?thesis
      proof (cases rl)
        case (Inl e)
        with run cfg args' tok loc have "w' = w1"
          by (simp add: planilha_def bindIO_def getAuthClient_def returnIO_def)
        with pre show ?thesis using no_drive_vacuous by blast
      next
        case (Inr targetCell)
        note loc' = loc [unfolded Inr]
        let ?g = "SheetsGet (spreadsheetId cfg) targetCell"
        let ?wg = "w1\<lparr>calls := calls w1 @ [?g]\<rparr>"
        let ?tail = "bindIO (planilha_artifact cfg receipt) (\<lambda>(fileId, fileLink).
             bindIO (sheetsUpdate cfg targetCell
                       (Formula (hyperlink cfg fileLink (up_fileName receipt)))) (\<lambda>_.
             marcarComprovanteNaAbaMain rt cfg nome mes))"
        have cfg': "spreadsheetId cfg \<noteq> []" "folderId cfg \<noteq> []" using cfg by auto
        note unfolded = planilha_to_guard [OF cfg' tok args' loc']
        have gpre: "calls ?wg = calls w @ (pre @ [?g])"
          "\<forall>c \<in> set (pre @ [?g]). isRead c"
          using pre by (auto simp: isRead_def)
        show ?thesis
        proof (cases "faults w1 (length (calls w1)) = None \<and> \<not> truthy (firstCell (cells w1 targetCell))")
          case False
          with run have "w' = ?wg"
            unfolding unfolded by (auto simp: bindIO_def guard_run split: option.splits if_splits)
          with gpre show ?thesis using no_drive_vacuous by blast
        next
          case True
          with run have t: "?tail ?wg = (res, w')"
            unfolding unfolded by (simp add: bindIO_def [of "planilha_guard cfg nome mes targetCell"] guard_run)
          from tail_first_call [OF t] obtain more where
            "calls w' = calls ?wg @ DriveList (driveQuery cfg (up_fileName receipt)) # more" by blast
          then have new: "newCalls w w' = pre @ ?g # DriveList (driveQuery cfg (up_fileName receipt)) # more"
            using pre(1) by (simp add: newCalls_def)
          let ?j = "length pre"
          have at_j: "newCalls w w' ! ?j = ?g" unfolding new by (simp add: nth_append)
          have len: "length (calls w1) = length (calls w) + ?j" using pre(1) by simp
          show ?thesis
          proof (intro allI impI)
            fix i assume i: "i < length (newCalls w w')" and d: "isDriveCall (newCalls w w' ! i)"
            have "\<not> i < ?j"
            proof
              assume "i < ?j"
              then have "newCalls w w' ! i \<in> set pre" unfolding new by (simp add: nth_append)
              with pre(2) d isRead_not_drive show False by blast
            qed
            moreover have "i \<noteq> ?j" using d at_j by (auto simp: isDriveCall_def)
            ultimately have "?j < i" by arith
            with args' loc' len at_j True show "?Q i" by blast
          qed
        qed
      qed
    qed
  qed
qed

lemma msgDuplicate_names:
  "includesStr (msgDuplicate nome mes targetCell existingValue) nome"
  "includesStr (msgDuplicate nome mes targetCell existingValue) mes"
  "includesStr (msgDuplicate nome mes targetCell existingValue) targetCell"
  "includesStr (msgDuplicate nome mes targetCell existingValue) existingValue"
proof -
  let ?a = "ascii ''Comprovante j'' @ [0xE1] @ ascii '' existe para ''"
  let ?b = "ascii '' em ''"
  let ?c = "ascii ''. C'' @ [0xE9] @ ascii ''lula ''"
  let ?d = "ascii '' j'' @ [0xE1] @ ascii '' cont'' @ [0xE9] @ ascii ''m: ''"
  let ?msg = "msgDuplicate nome mes targetCell existingValue"
  have 1: "?msg = ?a @ nome @ (?b @ mes @ ?c @ targetCell @ ?d @ existingValue)"
    and 2: "?msg = (?a @ nome @ ?b) @ mes @ (?c @ targetCell @ ?d @ existingValue)"
    and 3: "?msg = (?a @ nome @ ?b @ mes @ ?c) @ targetCell @ (?d @ existingValue)"
    and 4: "?msg = (?a @ nome @ ?b @ mes @ ?c @ targetCell @ ?d) @ existingValue @ []"
    by (simp_all add: msgDuplicate_def)
  show "includesStr ?msg nome" unfolding includesStr_iff using 1 by blast
  show "includesStr ?msg mes" unfolding includesStr_iff using 2 by blast
  show "includesStr ?msg targetCell" unfolding includesStr_iff using 3 by blast
  show "includesStr ?msg existingValue" unfolding includesStr_iff using 4 by blast
qed

text \<open>
  C2. For every payer name and period: when the row and the column resolve to
  \<open>targetCell\<close> and the read of that cell answers with a non-empty value, \<open>planilha\<close>
  throws an \<open>Error\<close>, and the calls of this execution contain no call to Drive, neither
  \<open>files.list\<close> nor \<open>files.create\<close>: the files of Drive are as they were.
  The message of the error is \<open>Comprovante j\<close>\<open>a-acute\<close>\<open> existe para \<close>, the payer
  name, \<open> em \<close>, the period, \<open>. C\<close>\<open>e-acute\<close>\<open>lula \<close>, the address of the cell,
  \<open> j\<close>\<open>a-acute\<close>\<open> cont\<close>\<open>e-acute\<close>\<open>m: \<close>, the value found in the cell: it names the
  payer, the period, the cell and the existing value, each of them a substring of it.
  The check runs strictly before any artifact call: in every execution of \<open>planilha\<close>,
  whatever the services do, a call to Drive is preceded by the read of the resolved target
  cell, and that read was answered with an absent or empty value.
\<close>

theorem C2_duplicate_guard:
  "(spreadsheetId cfg \<noteq> [] \<and> folderId cfg \<noteq> [] \<and> refreshToken cfg \<noteq> [] \<and>
    planilha_args rt a2 arg3 custom w = (Inr (mes, receipt), w0) \<and>
    planilha_locate rt cfg nome mes w0 = (Inr targetCell, w1) \<and>
    faults w1 (length (calls w1)) = None \<and>
    firstCell (cells w1 targetCell) = Some existingValue \<and> existingValue \<noteq> []
    \<longrightarrow> (\<exists>w'. planilha rt cfg nome a2 arg3 custom w =
                 (Inl (ErrorObj (msgDuplicate nome mes targetCell existingValue)), w')
              \<and> (\<forall>c \<in> set (newCalls w w'). \<not> isDriveCall c)
              \<and> files w' = files w1))
   \<and> msgDuplicate nome mes targetCell existingValue =
       ascii ''Comprovante j'' @ [0xE1] @ ascii '' existe para '' @ nome @ ascii '' em '' @ mes @
       ascii ''. C'' @ [0xE9] @ ascii ''lula '' @ targetCell @ ascii '' j'' @ [0xE1] @
       ascii '' cont'' @ [0xE9] @ ascii ''m: '' @ existingValue
   \<and> includesStr (msgDuplicate nome mes targetCell existingValue) nome
   \<and> includesStr (msgDuplicate nome mes targetCell existingValue) mes
   \<and> includesStr (msgDuplicate nome mes targetCell existingValue) targetCell
   \<and> includesStr (msgDuplicate nome mes targetCell existingValue) existingValue
   \<and> (planilha rt cfg nome a2 arg3 custom v = (res, v')
    \<longrightarrow> (\<forall>i < length (newCalls v v'). isDriveCall (newCalls v v' ! i) \<longrightarrow>
           (\<exists>j < i. \<exists>m r v0 cell v1.
              planilha_args rt a2 arg3 custom v = (Inr (m, r), v0) \<and>
              planilha_locate rt cfg nome m v0 = (Inr cell, v1) \<and>
              length (calls v1) = length (calls v) + j \<and>
              newCalls v v' ! j = SheetsGet (spreadsheetId cfg) cell \<and>
              faults v1 (length (calls v1)) = None \<and>
              \<not> truthy (firstCell (cells v1 cell)))))"
proof (intro conjI impI)
  assume h: "spreadsheetId cfg \<noteq> [] \<and> folderId cfg \<noteq> [] \<and> refreshToken cfg \<noteq> [] \<and>
    planilha_args rt a2 arg3 custom w = (Inr (mes, receipt), w0) \<and>
    planilha_locate rt cfg nome mes w0 = (Inr targetCell, w1) \<and>
    faults w1 (length (calls w1)) = None \<and>
    firstCell (cells w1 targetCell) = Some existingValue \<and> existingValue \<noteq> []"
  then show "\<exists>w'. planilha rt cfg nome a2 arg3 custom w =
                 (Inl (ErrorObj (msgDuplicate nome mes targetCell existingValue)), w')
              \<and> (\<forall>c \<in> set (newCalls w w'). \<not> isDriveCall c)
              \<and> files w' = files w1"
    using duplicate_no_drive [of cfg rt a2 arg3 custom w mes receipt w0 nome targetCell w1
        existingValue]
    by blast
next
  show "msgDuplicate nome mes targetCell existingValue =
       ascii ''Comprovante j'' @ [0xE1] @ ascii '' existe para '' @ nome @ ascii '' em '' @ mes @
       ascii ''. C'' @ [0xE9] @ ascii ''lula '' @ targetCell @ ascii '' j'' @ [0xE1] @
       ascii '' cont'' @ [0xE9] @ ascii ''m: '' @ existingValue"
    by (simp add: msgDuplicate_def)
next
  show "includesStr (msgDuplicate nome mes targetCell existingValue) nome"
    by (rule msgDuplicate_names)
next
  show "includesStr (msgDuplicate nome mes targetCell existingValue) mes"
    by (rule msgDuplicate_names)
next
  show "includesStr (msgDuplicate nome mes targetCell existingValue) targetCell"
    by (rule msgDuplicate_names)
next
  show "includesStr (msgDuplicate nome mes targetCell existingValue) existingValue"
    by (rule msgDuplicate_names)
next
  assume "planilha rt cfg nome a2 arg3 custom v = (res, v')"
  then show "\<forall>i < length (newCalls v v'). isDriveCall (newCalls v v' ! i) \<longrightarrow>
           (\<exists>j < i. \<exists>m r v0 cell v1.
              planilha_args rt a2 arg3 custom v = (Inr (m, r), v0) \<and>
              planilha_locate rt cfg nome m v0 = (Inr cell, v1) \<and>
              length (calls v1) = length (calls v) + j \<and>
              newCalls v v' ! j = SheetsGet (spreadsheetId cfg) cell \<and>
              faults v1 (length (calls v1)) = None \<and>
              \<not> truthy (firstCell (cells v1 cell)))"
    by (rule drive_after_cell_read)
qed

theorem C2_duplicate_guard_witness:
  "firstCell (cells filledWorld (ascii ''Comprovantes!C2'')) = Some (ascii '' '')
   \<and> fst (planilha latin1 defaultConfig (ascii ''Ana'') (Upload exampleReceipt)
             (Some (ascii ''Fevereiro'')) None filledWorld) =
       Inl (ErrorObj (ascii ''Comprovante j'' @ [0xE1] @ ascii '' existe para Ana em Fevereiro. C'' @
                      [0xE9] @ ascii ''lula Comprovantes!C2 j'' @ [0xE1] @ ascii '' cont'' @ [0xE9] @
                      ascii ''m:  ''))
   \<and> filter isDriveCall
         (newCalls filledWorld
            (snd (planilha latin1 defaultConfig (ascii ''Ana'') (Upload exampleReceipt)
                    (Some (ascii ''Fevereiro'')) None filledWorld))) = []
   \<and> isDriveCall
         (newCalls exampleWorld
            (snd (planilha latin1 defaultConfig (ascii ''Ana'') (Upload exampleReceipt)
                    (Some (ascii ''Fevereiro'')) None exampleWorld)) ! 3)
   \<and> (\<exists>j < 3. \<exists>cell.
         newCalls exampleWorld
            (snd (planilha latin1 defaultConfig (ascii ''Ana'') (Upload exampleReceipt)
                    (Some (ascii ''Fevereiro'')) None exampleWorld)) ! j =
         SheetsGet (spreadsheetId defaultConfig) cell)"
proof -
  let ?w1 = "filledWorld\<lparr>calls := calls filledWorld @
               [SheetsGet (ascii ''sheet-1'') (ascii ''Comprovantes!A2:A29''),
                SheetsGet (ascii ''sheet-1'') (ascii ''Comprovantes!B1:L1'')]\<rparr>"
  let ?W = "snd (planilha latin1 defaultConfig (ascii ''Ana'') (Upload exampleReceipt)
                    (Some (ascii ''Fevereiro'')) None exampleWorld)"
  have loc: "planilha_locate latin1 defaultConfig (ascii ''Ana'') (ascii ''Fevereiro'') filledWorld =
               (Inr (ascii ''Comprovantes!C2''), ?w1)"
    by (rule locate_example) (simp_all add: filled_cells)
  have ans: "faults ?w1 (length (calls ?w1)) = None" by (simp add: filled_cells)
  have cell: "firstCell (cells ?w1 (ascii ''Comprovantes!C2'')) = Some (ascii '' '')"
    by (simp add: filled_cells)
  have ne: "ascii '' '' \<noteq> []" by (simp add: ascii_def)
  have run: "planilha latin1 defaultConfig (ascii ''Ana'') (Upload exampleReceipt)
                (Some (ascii ''Fevereiro'')) None exampleWorld = (Inr (), ?W)"
    by (simp add: prod_eq_iff planilha_example(1))
  have len: "3 < length (newCalls exampleWorld ?W)"
    and dr: "isDriveCall (newCalls exampleWorld ?W ! 3)"
    by (simp_all add: newCalls_def example_cells planilha_example(2) isDriveCall_def)
  note inst = C2_duplicate_guard [where cfg = defaultConfig and rt = latin1
      and ?a2.0 = "Upload exampleReceipt" and ?arg3.0 = "Some (ascii ''Fevereiro'')" and custom = None
      and nome = "ascii ''Ana''"
      and w = filledWorld and mes = "ascii ''Fevereiro''" and receipt = exampleReceipt
      and ?w0.0 = filledWorld and targetCell = "ascii ''Comprovantes!C2''" and ?w1.0 = ?w1
      and existingValue = "ascii '' ''"
      and v = exampleWorld and res = "Inr ()" and v' = ?W]
  from inst default_configured args_upload loc ans cell ne
  obtain w' where "planilha latin1 defaultConfig (ascii ''Ana'') (Upload exampleReceipt)
             (Some (ascii ''Fevereiro'')) None filledWorld =
       (Inl (ErrorObj (msgDuplicate (ascii ''Ana'') (ascii ''Fevereiro'')
                        (ascii ''Comprovantes!C2'') (ascii '' ''))), w')"
    "\<forall>c \<in> set (newCalls filledWorld w'). \<not> isDriveCall c" by blast
  then have 1: "fst (planilha latin1 defaultConfig (ascii ''Ana'') (Upload exampleReceipt)
             (Some (ascii ''Fevereiro'')) None filledWorld) =
       Inl (ErrorObj (msgDuplicate (ascii ''Ana'') (ascii ''Fevereiro'')
                        (ascii ''Comprovantes!C2'') (ascii '' '')))"
    and 2: "filter isDriveCall
         (newCalls filledWorld
            (snd (planilha latin1 defaultConfig (ascii ''Ana'') (Upload exampleReceipt)
                    (Some (ascii ''Fevereiro'')) None filledWorld))) = []"
    by (simp_all add: filter_empty_conv)
  from inst
  have msg: "msgDuplicate (ascii ''Ana'') (ascii ''Fevereiro'') (ascii ''Comprovantes!C2'') (ascii '' '') =
       ascii ''Comprovante j'' @ [0xE1] @ ascii '' existe para '' @ ascii ''Ana'' @ ascii '' em '' @
       ascii ''Fevereiro'' @ ascii ''. C'' @ [0xE9] @ ascii ''lula '' @ ascii ''Comprovantes!C2'' @
       ascii '' j'' @ [0xE1] @ ascii '' cont'' @ [0xE9] @ ascii ''m: '' @ ascii '' ''"
    by blast
  from inst run len dr
  have 3: "\<exists>j < 3. \<exists>cell. newCalls exampleWorld ?W ! j = SheetsGet (spreadsheetId defaultConfig) cell"
    by blast
  have shown: "fst (planilha latin1 defaultConfig (ascii ''Ana'') (Upload exampleReceipt)
             (Some (ascii ''Fevereiro'')) None filledWorld) =
       Inl (ErrorObj (ascii ''Comprovante j'' @ [0xE1] @ ascii '' existe para Ana em Fevereiro. C'' @
                      [0xE9] @ ascii ''lula Comprovantes!C2 j'' @ [0xE1] @ ascii '' cont'' @ [0xE9] @
                      ascii ''m:  ''))"
    unfolding 1 msg by (simp add: ascii_def)
  from shown 2 3 dr show ?thesis by (simp add: filled_cells)
qed

text \<open>
  C10. For every value read from the target cell, when the read is answered: the guard
  throws the duplicate error exactly when the value is present and not the empty string
  (so a single space counts as filled); it lets the execution pass exactly when the value
  is absent or the empty string, and then \<open>planilha\<close> goes on to the artifact step: the next
  call of the log is the \<open>files.list\<close> of Drive.
\<close>

theorem C10_guard_truthiness:
  assumes "faults w (length (calls w)) = None"
  shows "((\<exists>w'. planilha_guard cfg nome mes targetCell w =
              (Inl (ErrorObj (msgDuplicate nome mes targetCell
                      (orEmpty (firstCell (cells w targetCell))))), w'))
          \<longleftrightarrow> (\<exists>v. firstCell (cells w targetCell) = Some v \<and> v \<noteq> []))
       \<and> ((firstCell (cells w targetCell) = None \<or> firstCell (cells w targetCell) = Some [])
          \<longleftrightarrow> planilha_guard cfg nome mes targetCell w =
                (Inr (), w\<lparr>calls := calls w @ [SheetsGet (spreadsheetId cfg) targetCell]\<rparr>))
       \<and> (spreadsheetId cfg \<noteq> [] \<and> folderId cfg \<noteq> [] \<and> refreshToken cfg \<noteq> [] \<and>
          planilha_args rt a2 arg3 custom w0 = (Inr (mes, receipt), w1) \<and>
          planilha_locate rt cfg nome mes w1 = (Inr targetCell, w) \<and>
          (firstCell (cells w targetCell) = None \<or> firstCell (cells w targetCell) = Some [])
          \<longrightarrow> (\<exists>r w' more. planilha rt cfg nome a2 arg3 custom w0 = (r, w') \<and>
                 calls w' = calls w @ [SheetsGet (spreadsheetId cfg) targetCell,
                                       DriveList (driveQuery cfg (up_fileName receipt))] @ more))"
proof (intro conjI impI)
  show "(\<exists>w'. planilha_guard cfg nome mes targetCell w =
              (Inl (ErrorObj (msgDuplicate nome mes targetCell
                      (orEmpty (firstCell (cells w targetCell))))), w'))
          \<longleftrightarrow> (\<exists>v. firstCell (cells w targetCell) = Some v \<and> v \<noteq> [])"
    using assms by (simp add: guard_run truthy_iff)
next
  show "(firstCell (cells w targetCell) = None \<or> firstCell (cells w targetCell) = Some [])
          \<longleftrightarrow> planilha_guard cfg nome mes targetCell w =
                (Inr (), w\<lparr>calls := calls w @ [SheetsGet (spreadsheetId cfg) targetCell]\<rparr>)"
    using assms by (cases "firstCell (cells w targetCell)") (auto simp add: guard_run truthy_def)
next
  assume h: "spreadsheetId cfg \<noteq> [] \<and> folderId cfg \<noteq> [] \<and> refreshToken cfg \<noteq> [] \<and>
          planilha_args rt a2 arg3 custom w0 = (Inr (mes, receipt), w1) \<and>
          planilha_locate rt cfg nome mes w1 = (Inr targetCell, w) \<and>
          (firstCell (cells w targetCell) = None \<or> firstCell (cells w targetCell) = Some [])"
  let ?wg = "w\<lparr>calls := calls w @ [SheetsGet (spreadsheetId cfg) targetCell]\<rparr>"
  let ?tail = "bindIO (planilha_artifact cfg receipt) (\<lambda>(fileId, fileLink).
       bindIO (sheetsUpdate cfg targetCell (Formula (hyperlink cfg fileLink (up_fileName receipt)))) (\<lambda>_.
       marcarComprovanteNaAbaMain rt cfg nome mes))"
  have nt: "\<not> truthy (firstCell (cells w targetCell))" using h by (auto simp: truthy_def)
  have "planilha rt cfg nome a2 arg3 custom w0 = ?tail ?wg"
    using h assms nt by (simp add: planilha_to_guard bindIO_def [of "planilha_guard cfg nome mes targetCell"] guard_run)
  moreover obtain r w' where t: "?tail ?wg = (r, w')" by (cases "?tail ?wg")
  moreover from tail_first_call [OF t] obtain more where
    "calls w' = calls ?wg @ DriveList (driveQuery cfg (up_fileName receipt)) # more" by blast
  ultimately show "\<exists>r w' more. planilha rt cfg nome a2 arg3 custom w0 = (r, w') \<and>
                 calls w' = calls w @ [SheetsGet (spreadsheetId cfg) targetCell,
                                       DriveList (driveQuery cfg (up_fileName receipt))] @ more"
    by simp
qed

theorem C10_guard_truthiness_witness:
  "(\<exists>w'. planilha_guard defaultConfig (ascii ''Ana'') (ascii ''Fevereiro'') (ascii ''Comprovantes!C2'')
           filledWorld =
         (Inl (ErrorObj (msgDuplicate (ascii ''Ana'') (ascii ''Fevereiro'')
                 (ascii ''Comprovantes!C2'') (ascii '' ''))), w'))
   \<and> planilha_guard defaultConfig (ascii ''Ana'') (ascii ''Fevereiro'') (ascii ''Comprovantes!C2'')
        exampleWorld =
       (Inr (), exampleWorld\<lparr>calls := [SheetsGet (ascii ''sheet-1'') (ascii ''Comprovantes!C2'')]\<rparr>)"
proof -
  have f: "faults filledWorld (length (calls filledWorld)) = None" by (simp add: filled_cells)
  have e: "faults exampleWorld (length (calls exampleWorld)) = None" by (simp add: example_cells)
  have ne: "ascii '' '' \<noteq> []" by (simp add: ascii_def)
  from C10_guard_truthiness [OF f, of defaultConfig "ascii ''Ana''" "ascii ''Fevereiro''"
      "ascii ''Comprovantes!C2''"]
  have 1: "\<exists>w'. planilha_guard defaultConfig (ascii ''Ana'') (ascii ''Fevereiro'') (ascii ''Comprovantes!C2'')
           filledWorld =
         (Inl (ErrorObj (msgDuplicate (ascii ''Ana'') (ascii ''Fevereiro'')
                 (ascii ''Comprovantes!C2'') (ascii '' ''))), w')"
    using ne by (simp add: filled_cells orEmpty_def)
  from C10_guard_truthiness [OF e, of defaultConfig "ascii ''Ana''" "ascii ''Fevereiro''"
      "ascii ''Comprovantes!C2''"]
  have 2: "planilha_guard defaultConfig (ascii ''Ana'') (ascii ''Fevereiro'') (ascii ''Comprovantes!C2'')
        exampleWorld =
       (Inr (), exampleWorld\<lparr>calls := [SheetsGet (ascii ''sheet-1'') (ascii ''Comprovantes!C2'')]\<rparr>)"
    by (simp add: example_cells sheet_default)
  from 1 2 show ?thesis by blast
qed

section \<open>Artifact store\<close>

text \<open>
  Where the find-or-create step does find its file again: the file name holds no
  backslash (and the folder id neither quote nor backslash), and Drive gave the file an
  id. Then a second call with the same name returns what the first returned and creates
  nothing, and a \<open>files.create\<close> is issued exactly when the search was answered and found
  no file of that name.
\<close>

lemma artifact_second_call:
  assumes plain: "0x5C \<notin> set (up_fileName r1)" "0x27 \<notin> set (folderId cfg)"
      "0x5C \<notin> set (folderId cfg)"
    and first: "planilha_artifact cfg r1 w = (Inr (fileId, fileLink), w1)"
    and idok: "truthy fileId"
    and name: "up_fileName r2 = up_fileName r1"
    and ans: "faults w1 (length (calls w1)) = None"
  shows "planilha_artifact cfg r2 w1 =
           (Inr (fileId, fileLink),
            w1\<lparr>calls := calls w1 @ [DriveList (driveQuery cfg (up_fileName r1))]\<rparr>)"
proof -
  let ?n = "up_fileName r1"
  let ?wd = "w\<lparr>calls := calls w @ [DriveList (driveQuery cfg ?n)]\<rparr>"
  note run1 = artifact_run_plain [OF plain]
  have plain2: "0x5C \<notin> set (up_fileName r2)" using plain(1) name by simp
  note run2 = artifact_run_plain [OF plain2 plain(2,3)]
  from first have f0: "faults w (length (calls w)) = None"
    by (auto simp: run1 Let_def split: option.splits)
  show ?thesis
  proof (cases "filter (namedIn ?n (folderId cfg)) (files w)")
    case (Cons f fs)
    with first f0 have r: "truthy (file_id f)" "truthy (file_webViewLink f)"
      "fileId = file_id f" "fileLink = orEmpty (file_webViewLink f)" "w1 = ?wd"
      by (auto simp: run1 Let_def split: if_splits)
    have "files w1 = files w" using r(5) by simp
    then show ?thesis using Cons r ans name by (simp add: run2 Let_def)
  next
    case Nil
    let ?mt = "case up_mimeType r1 of None \<Rightarrow> ascii ''image/jpeg'' | Some m \<Rightarrow> m"
    let ?a = "assigned w (length (files w))"
    let ?nf = "\<lparr> file_id = fst ?a, file_name = ?n, file_webViewLink = snd ?a,
                 file_parents = [folderId cfg], file_trashed = False,
                 file_mimeType = ?mt, file_body = up_buffer r1 \<rparr>"
    from first f0 Nil have f1: "faults w (Suc (length (calls w))) = None"
      by (auto simp: run1 Let_def driveCreate_run split: option.splits)
    from first f0 f1 Nil have r: "truthy (snd ?a)" "fileId = fst ?a" "fileLink = orEmpty (snd ?a)"
      "files w1 = files w @ [?nf]"
      by (auto simp: run1 Let_def driveCreate_run split: if_splits prod.splits)
    have "namedIn ?n (folderId cfg) ?nf" by (simp add: namedIn_def)
    then have "filter (namedIn ?n (folderId cfg)) (files w1) = [?nf]"
      using Nil r(4) by simp
    then show ?thesis using r idok ans name by (simp add: run2 Let_def)
  qed
qed

lemma artifact_create_iff:
  assumes plain: "0x5C \<notin> set (up_fileName r)" "0x27 \<notin> set (folderId cfg)"
      "0x5C \<notin> set (folderId cfg)"
    and run: "planilha_artifact cfg r w = (res, w')"
  shows "(\<exists>c \<in> set (newCalls w w'). isDriveCreate c) \<longleftrightarrow>
         (faults w (length (calls w)) = None \<and>
          (\<forall>f \<in> set (files w). \<not> namedIn (up_fileName r) (folderId cfg) f))"
proof (cases "faults w (length (calls w))")
  case (Some e)
  with run show ?thesis
    by (auto simp: artifact_run_plain [OF plain] Let_def newCalls_def isDriveCreate_def)
next
  case None
  show ?thesis
  proof (cases "filter (namedIn (up_fileName r) (folderId cfg)) (files w)")
    case Nil
    then have none: "\<forall>f \<in> set (files w). \<not> namedIn (up_fileName r) (folderId cfg) f"
      by (simp add: filter_empty_conv)
    from run None Nil have "\<exists>c \<in> set (newCalls w w'). isDriveCreate c"
      by (auto simp: artifact_run_plain [OF plain] Let_def driveCreate_run newCalls_def isDriveCreate_def
          split: option.splits if_splits prod.splits)
    with none None show ?thesis by blast
  next
    case (Cons f fs)
    then have "f \<in> set (filter (namedIn (up_fileName r) (folderId cfg)) (files w))" by simp
    then have some: "\<exists>f \<in> set (files w). namedIn (up_fileName r) (folderId cfg) f" by auto
    from run None Cons have "\<not> (\<exists>c \<in> set (newCalls w w'). isDriveCreate c)"
      by (auto simp: artifact_run_plain [OF plain] Let_def newCalls_def isDriveCreate_def split: if_splits)
    with some show ?thesis by blast
  qed
qed

text \<open>
  C3 (the code at the failing inputs). The query escapes the single quotes of the file
  name and leaves its backslashes as they are. For the file name \<open>A\<close>, backslash,
  backslash, \<open>_Fev.jpg\<close> the query sent holds the name as it is, between quotes, and
  Drive reads there the name \<open>A\<close>, backslash, \<open>_Fev.jpg\<close>, with one backslash. On an
  empty folder the first call finds nothing and creates the file, with id \<open>id-0\<close>; the
  second call, with the identical file name and other bytes, searches for the same
  one-backslash name, finds nothing again, and creates a second file of the identical name,
  with id \<open>id-1\<close>: its calls are a \<open>files.list\<close> and a \<open>files.create\<close>, and it does not
  return what the first call returned.
  The same step, with the plain name \<open>Ana_Fev.jpg\<close>, on a Drive that answers
  \<open>files.create\<close> with a link and no id: the first call returns the link with an
  undefined id (the new file's id is not checked, where the id of a file found is), and
  the second call finds the file and throws \<open>Arquivo existente no Drive sem dados
  suficientes\<close>.
\<close>

theorem C3_backslash_name_created_twice:
  "up_fileName (backslashReceipt\<lparr>up_buffer := [1, 2, 3]\<rparr>) = up_fileName backslashReceipt
   \<and> driveQuery defaultConfig (up_fileName backslashReceipt) =
       ascii ''name='' @ [0x27] @ ascii ''A'' @ [0x5C, 0x5C] @ ascii ''_Fev.jpg'' @ [0x27] @
       ascii '' and '' @ [0x27] @ ascii ''folder-1'' @ [0x27] @ ascii '' in parents and trashed=false''
   \<and> parseQuery (driveQuery defaultConfig (up_fileName backslashReceipt)) =
       Some (ascii ''A'' @ [0x5C] @ ascii ''_Fev.jpg'', ascii ''folder-1'')
   \<and> fst (planilha_artifact defaultConfig backslashReceipt exampleWorld) =
       Inr (Some (ascii ''id-0''), ascii ''https://drive.example/0'')
   \<and> fst (planilha_artifact defaultConfig (backslashReceipt\<lparr>up_buffer := [1, 2, 3]\<rparr>)
            (snd (planilha_artifact defaultConfig backslashReceipt exampleWorld))) =
       Inr (Some (ascii ''id-1''), ascii ''https://drive.example/1'')
   \<and> newCalls (snd (planilha_artifact defaultConfig backslashReceipt exampleWorld))
        (snd (planilha_artifact defaultConfig (backslashReceipt\<lparr>up_buffer := [1, 2, 3]\<rparr>)
                (snd (planilha_artifact defaultConfig backslashReceipt exampleWorld)))) =
       [DriveList (driveQuery defaultConfig (up_fileName backslashReceipt)),
        DriveCreate (up_fileName backslashReceipt) [ascii ''folder-1''] (ascii ''image/jpeg'')
          [1, 2, 3]]
   \<and> map file_name
        (files (snd (planilha_artifact defaultConfig (backslashReceipt\<lparr>up_buffer := [1, 2, 3]\<rparr>)
                       (snd (planilha_artifact defaultConfig backslashReceipt exampleWorld))))) =
       [up_fileName backslashReceipt, up_fileName backslashReceipt]
   \<and> fst (planilha_artifact defaultConfig exampleReceipt noIdWorld) =
       Inr (None, ascii ''https://drive.example/0'')
   \<and> fst (planilha_artifact defaultConfig (exampleReceipt\<lparr>up_buffer := [1, 2, 3]\<rparr>)
            (snd (planilha_artifact defaultConfig exampleReceipt noIdWorld))) =
       Inl (ErrorObj (msgExistingIncomplete (ascii ''Ana_Fev.jpg'')))"
proof -
  let ?r2 = "backslashReceipt\<lparr>up_buffer := [1, 2, 3]\<rparr>"
  let ?q = "DriveList (driveQuery defaultConfig (up_fileName backslashReceipt))"
  let ?f0 = "\<lparr> file_id = Some (ascii ''id-0''), file_name = up_fileName backslashReceipt,
        file_webViewLink = Some (ascii ''https://drive.example/0''),
        file_parents = [ascii ''folder-1''], file_trashed = False,
        file_mimeType = ascii ''image/jpeg'', file_body = [0xFF, 0xD8] \<rparr>"
  let ?f1 = "\<lparr> file_id = Some (ascii ''id-1''), file_name = up_fileName backslashReceipt,
        file_webViewLink = Some (ascii ''https://drive.example/1''),
        file_parents = [ascii ''folder-1''], file_trashed = False,
        file_mimeType = ascii ''image/jpeg'', file_body = [1, 2, 3] \<rparr>"
  let ?w1 = "exampleWorld\<lparr>calls := [?q, DriveCreate (up_fileName backslashReceipt)
                 [ascii ''folder-1''] (ascii ''image/jpeg'') [0xFF, 0xD8]], files := [?f0]\<rparr>"
  let ?w2 = "?w1\<lparr>calls := calls ?w1 @ [?q, DriveCreate (up_fileName backslashReceipt)
                 [ascii ''folder-1''] (ascii ''image/jpeg'') [1, 2, 3]], files := [?f0, ?f1]\<rparr>"
  have link: "ascii ''https://drive.example/'' \<noteq> []" by (simp add: ascii_def)
  have other: "\<not> namedIn (ascii ''A'' @ [0x5C] @ ascii ''_Fev.jpg'') (ascii ''folder-1'') ?f0"
    by (simp add: namedIn_def backslashReceipt_def ascii_def)
  have s0: "driveSearch (driveQuery defaultConfig (up_fileName backslashReceipt)) exampleWorld = Inr []"
    using backslash_search [of "up_buffer backslashReceipt" exampleWorld]
    by (simp add: example_cells)
  have first: "planilha_artifact defaultConfig backslashReceipt exampleWorld =
                 (Inr (Some (ascii ''id-0''), ascii ''https://drive.example/0''), ?w1)"
    unfolding artifact_run
    using s0
    by (simp add: driveCreate_run Let_def example_cells truthy_def orEmpty_def link
        exampleWorld_def [THEN arg_cong [of _ _ assigned], simplified]
        backslashReceipt_def defaultConfig_def showNat_numeral ascii_def)
  have s1: "driveSearch (driveQuery defaultConfig (up_fileName ?r2)) ?w1 = Inr []"
    unfolding backslash_search using other by simp
  have second: "planilha_artifact defaultConfig ?r2 ?w1 =
                 (Inr (Some (ascii ''id-1''), ascii ''https://drive.example/1''), ?w2)"
    unfolding artifact_run
    using s1
    by (simp add: driveCreate_run Let_def example_cells truthy_def orEmpty_def link
        exampleWorld_def [THEN arg_cong [of _ _ assigned], simplified]
        exampleWorld_def [THEN arg_cong [of _ _ faults], simplified]
        backslashReceipt_def defaultConfig_def showNat_numeral ascii_def)
  let ?g0 = "\<lparr> file_id = None, file_name = ascii ''Ana_Fev.jpg'',
        file_webViewLink = Some (ascii ''https://drive.example/0''),
        file_parents = [ascii ''folder-1''], file_trashed = False,
        file_mimeType = ascii ''image/jpeg'', file_body = [0xFF, 0xD8] \<rparr>"
  let ?v1 = "noIdWorld\<lparr>calls := [DriveList (driveQuery defaultConfig (ascii ''Ana_Fev.jpg'')),
                 DriveCreate (ascii ''Ana_Fev.jpg'') [ascii ''folder-1''] (ascii ''image/jpeg'')
                   [0xFF, 0xD8]], files := [?g0]\<rparr>"
  have n: "up_fileName exampleReceipt = ascii ''Ana_Fev.jpg''"
    "up_fileName (exampleReceipt\<lparr>up_buffer := [1, 2, 3]\<rparr>) = ascii ''Ana_Fev.jpg''"
    by (simp_all add: exampleReceipt_def)
  have noid: "faults noIdWorld = (\<lambda>_. None)" "calls noIdWorld = []" "files noIdWorld = []"
    "assigned noIdWorld = (\<lambda>n. (None, Some (ascii ''https://drive.example/'' @ showNat n)))"
    by (simp_all add: noIdWorld_def exampleWorld_def)
  have third: "planilha_artifact defaultConfig exampleReceipt noIdWorld =
                 (Inr (None, ascii ''https://drive.example/0''), ?v1)"
    unfolding artifact_run_ana [OF n(1)]
    by (simp add: driveCreate_run Let_def noid truthy_def orEmpty_def link
        exampleReceipt_def defaultConfig_def showNat_numeral ascii_def)
  have fourth: "fst (planilha_artifact defaultConfig (exampleReceipt\<lparr>up_buffer := [1, 2, 3]\<rparr>) ?v1) =
                  Inl (ErrorObj (msgExistingIncomplete (ascii ''Ana_Fev.jpg'')))"
    unfolding artifact_run_ana [OF n(2)]
    by (simp add: Let_def noid namedIn_def truthy_def defaultConfig_def)
  have calls2: "newCalls ?w1 ?w2 =
       [?q, DriveCreate (up_fileName backslashReceipt) [ascii ''folder-1''] (ascii ''image/jpeg'')
          [1, 2, 3]]"
    by (simp add: newCalls_def)
  show ?thesis
    unfolding first second third snd_conv fst_conv
    using backslash_query calls2 fourth by simp
qed

theorem C3_backslash_name_created_twice_witness:
  "fst (planilha_artifact defaultConfig (backslashReceipt\<lparr>up_buffer := [1, 2, 3]\<rparr>)
          (snd (planilha_artifact defaultConfig backslashReceipt exampleWorld))) \<noteq>
     fst (planilha_artifact defaultConfig backslashReceipt exampleWorld)
   \<and> filter isDriveCreate
        (newCalls (snd (planilha_artifact defaultConfig backslashReceipt exampleWorld))
           (snd (planilha_artifact defaultConfig (backslashReceipt\<lparr>up_buffer := [1, 2, 3]\<rparr>)
                   (snd (planilha_artifact defaultConfig backslashReceipt exampleWorld))))) =
       [DriveCreate (up_fileName backslashReceipt) [ascii ''folder-1''] (ascii ''image/jpeg'')
          [1, 2, 3]]"
proof -
  have ne: "ascii ''id-1'' \<noteq> ascii ''id-0''" by (simp add: ascii_def)
  from C3_backslash_name_created_twice ne show ?thesis
    by (simp add: isDriveCreate_def)
qed

section \<open>Order of the two writes\<close>

















section \<open>Intake pipeline\<close>

lemma read_image_buffer_run:
  "read_image rt (ImageBuffer b) mimeType w =
     ((case faults w (length (calls w)) of
         None \<Rightarrow> Inr (case groqAnswer w b mimeType of None \<Rightarrow> naoEPix | Some c \<Rightarrow> trim c)
       | Some (NonError _) \<Rightarrow> Inr naoEPix
       | Some Unprintable \<Rightarrow> Inr naoEPix
       | Some (ErrorObj message) \<Rightarrow>
           (let msg = toLowerCase rt message
            in if includesStr msg (ascii ''enoent'') \<or> includesStr msg (ascii ''not found'')
               then Inl (ErrorObj (ascii ''Arquivo n'' @ [0xE3] @ ascii ''o encontrado: '' @
                                   ascii ''[buffer-em-memoria]''))
               else if includesStr msg (ascii ''api'') \<or> includesStr msg (ascii ''401'')
                       \<or> includesStr msg (ascii ''403'')
               then Inl (ErrorObj (ascii ''Erro na API Groq: '' @ message))
               else if includesStr msg (ascii ''network'') \<or> includesStr msg (ascii ''econnrefused'')
               then Inl (ErrorObj (ascii ''Erro de rede ao conectar Groq: '' @ message))
               else Inr naoEPix)),
      w\<lparr>calls := calls w @ [GroqChat b mimeType]\<rparr>)"
  by (simp add: read_image_def bindIO_def returnIO_def groqChat_def request_def Let_def
      split: option.splits thrown.splits)

lemma try_result_shape:
  assumes "processPixReceipt_try rt cfg input w = (Inr r, w')"
  shows "(\<not> success r \<and> reason r = Some reason_not_pix \<and> error r = None)
         \<or> (success r \<and> reason r = None \<and> error r = None)"
  using assms
  by (auto simp: processPixReceipt_try_def Let_def bindIO_def
      getCurrentMonthName_def returnIO_def split: sum.splits if_splits prod.splits)

lemma errorMessage_cases:
  "errorMessage (ErrorObj m) = Inr m" "errorMessage (NonError s) = Inr s"
  "errorMessage Unprintable = Inl (ErrorObj msgCannotConvert)"
  by (simp_all add: errorMessage_def)

lemma errorMessage_Inr_iff: "(\<exists>msg. errorMessage e = Inr msg) \<longleftrightarrow> e \<noteq> Unprintable"
  by (cases e) (simp_all add: errorMessage_def)

lemma process_run:
  "processPixReceipt rt cfg input w =
     (case processPixReceipt_try rt cfg input w of
        (Inr result, w') \<Rightarrow> (Inr result, w')
      | (Inl (ErrorObj m), w') \<Rightarrow>
          (Inr \<lparr> success = False, reason = Some reason_error, error = Some m,
                 r_nome = None, r_mes = None, r_fileName = None \<rparr>, w')
      | (Inl (NonError s), w') \<Rightarrow>
          (Inr \<lparr> success = False, reason = Some reason_error, error = Some s,
                 r_nome = None, r_mes = None, r_fileName = None \<rparr>, w')
      | (Inl Unprintable, w') \<Rightarrow> (Inl (ErrorObj msgCannotConvert), w'))"
  by (simp add: processPixReceipt_def errorMessage_def split: prod.splits sum.splits thrown.splits)

lemma example_read:
  assumes "groqAnswer w = (\<lambda>_ _. Some (ascii ''ANA''))" and "faults w (length (calls w)) = None"
  shows "read_image latin1 (ImageBuffer (in_imageBuffer exampleInput)) (ascii ''image/jpeg'') w =
           (Inr (ascii ''ANA''),
            w\<lparr>calls := calls w @ [GroqChat (in_imageBuffer exampleInput) (ascii ''image/jpeg'')]\<rparr>)"
  using assms by (simp add: read_image_buffer_run trim_plain)

text \<open>
  What the body of the \<open>try\<close> throws is an \<open>Error\<close> of the program or what a service
  threw: \<open>read_image\<close> throws nothing but the \<open>Error\<close>s it words itself.
\<close>

lemma throwsOwnD:
  "throwsOwn m \<Longrightarrow> m w = (r, w') \<Longrightarrow>
     faults w' = faults w \<and>
     (\<forall>e. r = Inl e \<longrightarrow> (\<exists>msg. e = ErrorObj msg) \<or> (\<exists>n. faults w n = Some e))"
  unfolding throwsOwn_def by blast

lemma throwsOwn_return: "throwsOwn (returnIO x)"
  unfolding throwsOwn_def returnIO_def by auto

lemma throwsOwn_throw: "throwsOwn (throwIO (ErrorObj msg))"
  unfolding throwsOwn_def throwIO_def by auto

lemma throwsOwn_bind:
  assumes m: "throwsOwn m" and f: "\<And>x. throwsOwn (f x)"
  shows "throwsOwn (bindIO m f)"
  unfolding throwsOwn_def
proof (intro allI impI)
  fix w r w' assume run: "bindIO m f w = (r, w')"
  obtain r1 w1 where m1: "m w = (r1, w1)" by (cases "m w")
  note 1 = throwsOwnD [OF m m1]
  show "faults w' = faults w \<and>
        (\<forall>e. r = Inl e \<longrightarrow> (\<exists>msg. e = ErrorObj msg) \<or> (\<exists>n. faults w n = Some e))"
  proof (cases r1)
    case (Inl e)
    with run m1 have "w' = w1" "r = Inl e" by (simp_all add: bindIO_def)
    with 1 Inl show ?thesis by simp
  next
    case (Inr x)
    with run m1 have "f x w1 = (r, w')" by (simp add: bindIO_def)
    from throwsOwnD [OF f this] 1 show ?thesis by simp
  qed
qed

lemma throwsOwn_promiseAll2:
  assumes a: "throwsOwn a" and b: "throwsOwn b"
  shows "throwsOwn (promiseAll2 a b)"
  unfolding throwsOwn_def
proof (intro allI impI)
  fix w r w' assume run: "promiseAll2 a b w = (r, w')"
  obtain ra w1 where a1: "a w = (ra, w1)" by (cases "a w")
  obtain rb w2 where b1: "b w1 = (rb, w2)" by (cases "b w1")
  note 1 = throwsOwnD [OF a a1]
  note 2 = throwsOwnD [OF b b1]
  have w': "w' = w2" using run a1 b1 by (auto simp: promiseAll2_def split: sum.splits)
  have "(\<exists>msg. e = ErrorObj msg) \<or> (\<exists>n. faults w n = Some e)" if "r = Inl e" for e
  proof -
    from run a1 b1 that have "ra = Inl e \<or> rb = Inl e"
      by (auto simp: promiseAll2_def split: sum.splits)
    with 1 2 show ?thesis by auto
  qed
  with 1 2 w' show "faults w' = faults w \<and>
        (\<forall>e. r = Inl e \<longrightarrow> (\<exists>msg. e = ErrorObj msg) \<or> (\<exists>n. faults w n = Some e))"
    by simp
qed

lemma throwsOwn_request:
  assumes "\<And>w. faults (snd (serve w)) = faults w"
  shows "throwsOwn (request c serve)"
  unfolding throwsOwn_def
proof (intro allI impI)
  fix w r w' assume run: "request c serve w = (r, w')"
  let ?w1 = "w\<lparr>calls := calls w @ [c]\<rparr>"
  have s: "faults (snd (serve ?w1)) = faults w" using assms [of ?w1] by simp
  show "faults w' = faults w \<and>
        (\<forall>e. r = Inl e \<longrightarrow> (\<exists>msg. e = ErrorObj msg) \<or> (\<exists>n. faults w n = Some e))"
    using run s by (auto simp: request_def Let_def split: option.splits prod.splits)
qed

lemma throwsOwn_sheetsGet: "throwsOwn (sheetsGet cfg r)"
  unfolding sheetsGet_def by (rule throwsOwn_request) simp

lemma throwsOwn_sheetsUpdate: "throwsOwn (sheetsUpdate cfg r v)"
  unfolding sheetsUpdate_def by (rule throwsOwn_request) simp

lemma throwsOwn_driveList: "throwsOwn (driveList cfg n)"
  unfolding throwsOwn_def driveList_def driveSearch_def
  by (auto simp: Let_def split: option.splits prod.splits)

lemma throwsOwn_driveCreate: "throwsOwn (driveCreate n ps mt b)"
  unfolding driveCreate_def by (rule throwsOwn_request) (simp split: prod.splits)

lemma throwsOwn_locate: "throwsOwn (planilha_locate rt cfg nome mes)"
  unfolding planilha_locate_def Let_def
  by (auto intro!: throwsOwn_bind throwsOwn_promiseAll2 throwsOwn_sheetsGet throwsOwn_throw
        throwsOwn_return)

lemma throwsOwn_guard: "throwsOwn (planilha_guard cfg nome mes tc)"
  unfolding planilha_guard_def Let_def
  by (auto intro!: throwsOwn_bind throwsOwn_sheetsGet throwsOwn_throw throwsOwn_return)

lemma throwsOwn_artifact: "throwsOwn (planilha_artifact cfg receipt)"
  unfolding planilha_artifact_def
  by (auto intro!: throwsOwn_bind throwsOwn_driveList throwsOwn_driveCreate throwsOwn_throw
        throwsOwn_return split: list.splits)

lemma throwsOwn_marcar: "throwsOwn (marcarComprovanteNaAbaMain rt cfg nome mes)"
  unfolding marcarComprovanteNaAbaMain_def Let_def
  by (auto intro!: throwsOwn_bind throwsOwn_promiseAll2 throwsOwn_sheetsGet throwsOwn_sheetsUpdate
        throwsOwn_throw throwsOwn_return)

lemma throwsOwn_planilha_upload: "throwsOwn (planilha rt cfg nome (Upload receipt) arg3 custom)"
  unfolding planilha_def planilha_args_def getAuthClient_def
  by (auto intro!: throwsOwn_bind throwsOwn_throw throwsOwn_return throwsOwn_locate
        throwsOwn_guard throwsOwn_artifact throwsOwn_sheetsUpdate throwsOwn_marcar)

lemma throwsOwn_read_image: "throwsOwn (read_image rt (ImageBuffer b) mimeType)"
  unfolding throwsOwn_def
  by (auto simp: read_image_buffer_run Let_def split: option.splits thrown.splits if_splits)

lemma throwsOwn_month: "throwsOwn (getCurrentMonthName rt)"
  unfolding throwsOwn_def getCurrentMonthName_def by auto

lemma throwsOwn_try: "throwsOwn (processPixReceipt_try rt cfg input)"
  unfolding processPixReceipt_try_def Let_def
  by (auto intro!: throwsOwn_bind throwsOwn_read_image throwsOwn_month throwsOwn_planilha_upload
        throwsOwn_return)

text \<open>
  C6. For every input image: when the classifier (\<open>read_image\<close>) returns the sentinel,
  \<open>processPixReceipt\<close> returns \<open>{success: false, reason: 'not-pix'}\<close> and the only
  call of the execution is the chat completion the classifier made: no call to the
  spreadsheet, no call to Drive, both left as they were. The reason \<open>'error'\<close> is a
  different outcome: a result with that reason is returned exactly when the body of the
  \<open>try\<close> throws a value that has a message or a string; and \<open>processPixReceipt\<close>
  returns no result at all exactly when the body throws a value that has neither.
\<close>

theorem C6_not_pix:
  "(read_image rt (ImageBuffer (in_imageBuffer input))
       (case in_mimeType input of None \<Rightarrow> ascii ''image/jpeg'' | Some m \<Rightarrow> m) w = (Inr naoEPix, w1)
     \<longrightarrow> processPixReceipt rt cfg input w =
           (Inr \<lparr> success = False, reason = Some reason_not_pix, error = None,
                  r_nome = None, r_mes = None, r_fileName = None \<rparr>, w1)
         \<and> newCalls w w1 =
             [GroqChat (in_imageBuffer input)
                (case in_mimeType input of None \<Rightarrow> ascii ''image/jpeg'' | Some m \<Rightarrow> m)]
         \<and> (\<forall>c \<in> set (newCalls w (snd (processPixReceipt rt cfg input w))).
               \<not> isSheetsCall c \<and> \<not> isDriveCall c)
         \<and> cells w1 = cells w \<and> files w1 = files w)
   \<and> ((\<exists>r. fst (processPixReceipt rt cfg input w) = Inr r \<and> reason r = Some reason_error)
        \<longleftrightarrow> (\<exists>e. fst (processPixReceipt_try rt cfg input w) = Inl e \<and> e \<noteq> Unprintable))
   \<and> ((\<exists>t. fst (processPixReceipt rt cfg input w) = Inl t)
        \<longleftrightarrow> fst (processPixReceipt_try rt cfg input w) = Inl Unprintable)"
proof (intro conjI impI)
  let ?mime = "case in_mimeType input of None \<Rightarrow> ascii ''image/jpeg'' | Some m \<Rightarrow> m"
  assume c: "read_image rt (ImageBuffer (in_imageBuffer input)) ?mime w = (Inr naoEPix, w1)"
  then show run: "processPixReceipt rt cfg input w =
           (Inr \<lparr> success = False, reason = Some reason_not_pix, error = None,
                  r_nome = None, r_mes = None, r_fileName = None \<rparr>, w1)"
    by (simp add: processPixReceipt_def processPixReceipt_try_def Let_def bindIO_def returnIO_def)
  from c have w1: "w1 = w\<lparr>calls := calls w @ [GroqChat (in_imageBuffer input) ?mime]\<rparr>"
    by (simp add: read_image_buffer_run)
  then show new: "newCalls w w1 = [GroqChat (in_imageBuffer input) ?mime]"
    by (simp add: newCalls_def)
  show "\<forall>c \<in> set (newCalls w (snd (processPixReceipt rt cfg input w))).
               \<not> isSheetsCall c \<and> \<not> isDriveCall c"
    unfolding run by (simp add: new isSheetsCall_def isDriveCall_def)
  show "cells w1 = cells w" "files w1 = files w" using w1 by simp_all
next
  show "(\<exists>r. fst (processPixReceipt rt cfg input w) = Inr r \<and> reason r = Some reason_error)
        \<longleftrightarrow> (\<exists>e. fst (processPixReceipt_try rt cfg input w) = Inl e \<and> e \<noteq> Unprintable)"
  proof (cases "processPixReceipt_try rt cfg input w")
    case (Pair r w')
    show ?thesis
    proof (cases r)
      case (Inl e)
      with Pair show ?thesis by (cases e) (simp_all add: process_run)
    next
      case (Inr res)
      with Pair try_result_shape [of rt cfg input w res w'] show ?thesis
        by (auto simp: process_run)
    qed
  qed
next
  show "(\<exists>t. fst (processPixReceipt rt cfg input w) = Inl t)
        \<longleftrightarrow> fst (processPixReceipt_try rt cfg input w) = Inl Unprintable"
  proof (cases "processPixReceipt_try rt cfg input w")
    case (Pair r w')
    show ?thesis
    proof (cases r)
      case (Inl e)
      with Pair show ?thesis by (cases e) (simp_all add: process_run)
    next
      case (Inr res)
      with Pair show ?thesis by (simp add: process_run)
    qed
  qed
qed

theorem C6_not_pix_witness:
  "read_image latin1 (ImageBuffer (in_imageBuffer exampleInput)) (ascii ''image/jpeg'') notPixWorld =
     (Inr naoEPix, notPixWorld\<lparr>calls := [GroqChat [0xFF, 0xD8] (ascii ''image/jpeg'')]\<rparr>)
   \<and> processPixReceipt latin1 defaultConfig exampleInput notPixWorld =
       (Inr \<lparr> success = False, reason = Some reason_not_pix, error = None,
              r_nome = None, r_mes = None, r_fileName = None \<rparr>,
        notPixWorld\<lparr>calls := [GroqChat [0xFF, 0xD8] (ascii ''image/jpeg'')]\<rparr>)"
proof -
  have r: "read_image latin1 (ImageBuffer (in_imageBuffer exampleInput))
             (case in_mimeType exampleInput of None \<Rightarrow> ascii ''image/jpeg'' | Some m \<Rightarrow> m)
             notPixWorld =
           (Inr naoEPix, notPixWorld\<lparr>calls := [GroqChat [0xFF, 0xD8] (ascii ''image/jpeg'')]\<rparr>)"
    by (simp add: read_image_buffer_run notPixWorld_def exampleWorld_def exampleInput_def trim_plain)
  from C6_not_pix [of latin1 exampleInput notPixWorld
      "notPixWorld\<lparr>calls := [GroqChat [0xFF, 0xD8] (ascii ''image/jpeg'')]\<rparr>" defaultConfig] r
  show ?thesis by (simp add: exampleInput_def)
qed

text \<open>
  C9 (as amended). An \<open>Error\<close>, or a value that \<open>String\<close> converts, thrown by the body of
  the \<open>try\<close> becomes \<open>{success: false, reason: 'error', error: message}\<close>, the message
  being \<open>error.message\<close> of the \<open>Error\<close> and \<open>String(error)\<close> of the other value:
  whatever \<open>read_image\<close> throws does (it throws \<open>Error\<close>s only), and what \<open>planilha\<close>
  throws after a name was read does. When no service throws a value without string
  conversion, \<open>processPixReceipt\<close> returns a result, for every input and every other
  behaviour of the classifier, the spreadsheet and Drive: a success, a not-receipt, or an
  error that carries the message of what was thrown. A value without string conversion
  thrown by the body makes \<open>String(error)\<close> throw inside the \<open>catch\<close>: the \<open>TypeError\<close>
  leaves \<open>processPixReceipt\<close>.
\<close>

theorem C9_errors_become_results:
  "(processPixReceipt_try rt cfg input w = (Inl e, w') \<and> (e = ErrorObj msg \<or> e = NonError msg)
      \<longrightarrow> processPixReceipt rt cfg input w =
            (Inr \<lparr> success = False, reason = Some reason_error, error = Some msg,
                   r_nome = None, r_mes = None, r_fileName = None \<rparr>, w'))
   \<and> (mime = (case in_mimeType input of None \<Rightarrow> ascii ''image/jpeg'' | Some m \<Rightarrow> m) \<and>
      read_image rt (ImageBuffer (in_imageBuffer input)) mime w = (Inl e, w')
      \<longrightarrow> (\<exists>message. e = ErrorObj message \<and>
            processPixReceipt rt cfg input w =
              (Inr \<lparr> success = False, reason = Some reason_error, error = Some message,
                     r_nome = None, r_mes = None, r_fileName = None \<rparr>, w')))
   \<and> (mime = (case in_mimeType input of None \<Rightarrow> ascii ''image/jpeg'' | Some m \<Rightarrow> m) \<and>
      read_image rt (ImageBuffer (in_imageBuffer input)) mime w = (Inr nome, w1) \<and>
      nome \<noteq> naoEPix \<and>
      getCurrentMonthName rt w1 = (Inr mes, w1) \<and>
      planilha rt cfg (capitalizeName rt nome)
        (Upload \<lparr> up_fileName = nomeFormatado (capitalizeName rt nome) mes (in_extension input),
                  up_buffer = in_imageBuffer input, up_mimeType = Some mime \<rparr>)
        (Some mes) None w1 = (Inl e, w') \<and>
      (e = ErrorObj msg \<or> e = NonError msg)
      \<longrightarrow> processPixReceipt rt cfg input w =
            (Inr \<lparr> success = False, reason = Some reason_error, error = Some msg,
                   r_nome = None, r_mes = None, r_fileName = None \<rparr>, w'))
   \<and> ((\<forall>n. faults w n \<noteq> Some Unprintable)
      \<longrightarrow> (\<exists>r. fst (processPixReceipt rt cfg input w) = Inr r \<and>
              ((success r \<and> reason r = None \<and> error r = None)
               \<or> (\<not> success r \<and> reason r = Some reason_not_pix \<and> error r = None)
               \<or> (\<not> success r \<and> reason r = Some reason_error \<and>
                   (\<exists>m. error r = Some m \<and>
                        (fst (processPixReceipt_try rt cfg input w) = Inl (ErrorObj m) \<or>
                         fst (processPixReceipt_try rt cfg input w) = Inl (NonError m)))))))
   \<and> (processPixReceipt_try rt cfg input w = (Inl Unprintable, w')
      \<longrightarrow> processPixReceipt rt cfg input w = (Inl (ErrorObj msgCannotConvert), w'))
   \<and> errorMessage (ErrorObj m) = Inr m \<and> errorMessage (NonError s) = Inr s
   \<and> errorMessage Unprintable = Inl (ErrorObj msgCannotConvert)"
proof (intro conjI impI)
  assume "processPixReceipt_try rt cfg input w = (Inl e, w') \<and> (e = ErrorObj msg \<or> e = NonError msg)"
  then show "processPixReceipt rt cfg input w =
            (Inr \<lparr> success = False, reason = Some reason_error, error = Some msg,
                   r_nome = None, r_mes = None, r_fileName = None \<rparr>, w')"
    by (auto simp: process_run)
next
  assume h: "mime = (case in_mimeType input of None \<Rightarrow> ascii ''image/jpeg'' | Some m \<Rightarrow> m) \<and>
      read_image rt (ImageBuffer (in_imageBuffer input)) mime w = (Inl e, w')"
  let ?mime = "case in_mimeType input of None \<Rightarrow> ascii ''image/jpeg'' | Some m \<Rightarrow> m"
  from h have m: "mime = ?mime" by simp
  from h have c: "read_image rt (ImageBuffer (in_imageBuffer input)) ?mime w = (Inl e, w')"
    unfolding m by simp
  then obtain message where e: "e = ErrorObj message"
    by (auto simp: read_image_buffer_run Let_def split: option.splits thrown.splits if_splits)
  have "processPixReceipt_try rt cfg input w = (Inl e, w')"
    unfolding processPixReceipt_try_def Let_def bindIO_def
    by (simp add: c)
  with e show "\<exists>message. e = ErrorObj message \<and>
            processPixReceipt rt cfg input w =
              (Inr \<lparr> success = False, reason = Some reason_error, error = Some message,
                     r_nome = None, r_mes = None, r_fileName = None \<rparr>, w')"
    by (simp add: process_run)
next
  assume h: "mime = (case in_mimeType input of None \<Rightarrow> ascii ''image/jpeg'' | Some m \<Rightarrow> m) \<and>
      read_image rt (ImageBuffer (in_imageBuffer input)) mime w = (Inr nome, w1) \<and>
      nome \<noteq> naoEPix \<and>
      getCurrentMonthName rt w1 = (Inr mes, w1) \<and>
      planilha rt cfg (capitalizeName rt nome)
        (Upload \<lparr> up_fileName = nomeFormatado (capitalizeName rt nome) mes (in_extension input),
                  up_buffer = in_imageBuffer input, up_mimeType = Some mime \<rparr>)
        (Some mes) None w1 = (Inl e, w') \<and>
      (e = ErrorObj msg \<or> e = NonError msg)"
  let ?mime = "case in_mimeType input of None \<Rightarrow> ascii ''image/jpeg'' | Some m \<Rightarrow> m"
  from h have m: "mime = ?mime" by simp
  from h have c: "read_image rt (ImageBuffer (in_imageBuffer input)) ?mime w = (Inr nome, w1)"
    and ne: "nome \<noteq> naoEPix" and g: "getCurrentMonthName rt w1 = (Inr mes, w1)"
    and e: "e = ErrorObj msg \<or> e = NonError msg"
    unfolding m by simp_all
  from h have p: "planilha rt cfg (capitalizeName rt nome)
        (Upload \<lparr> up_fileName = nomeFormatado (capitalizeName rt nome) mes (in_extension input),
                  up_buffer = in_imageBuffer input, up_mimeType = Some ?mime \<rparr>)
        (Some mes) None w1 = (Inl e, w')"
    unfolding m by blast
  have "processPixReceipt_try rt cfg input w = (Inl e, w')"
    unfolding processPixReceipt_try_def Let_def bindIO_def
    by (simp add: c ne g p)
  with e show "processPixReceipt rt cfg input w =
            (Inr \<lparr> success = False, reason = Some reason_error, error = Some msg,
                   r_nome = None, r_mes = None, r_fileName = None \<rparr>, w')"
    by (auto simp: process_run)
next
  assume nf: "\<forall>n. faults w n \<noteq> Some Unprintable"
  show "\<exists>r. fst (processPixReceipt rt cfg input w) = Inr r \<and>
              ((success r \<and> reason r = None \<and> error r = None)
               \<or> (\<not> success r \<and> reason r = Some reason_not_pix \<and> error r = None)
               \<or> (\<not> success r \<and> reason r = Some reason_error \<and>
                   (\<exists>m. error r = Some m \<and>
                        (fst (processPixReceipt_try rt cfg input w) = Inl (ErrorObj m) \<or>
                         fst (processPixReceipt_try rt cfg input w) = Inl (NonError m)))))"
  proof (cases "processPixReceipt_try rt cfg input w")
    case (Pair r w')
    show ?thesis
    proof (cases r)
      case (Inl e)
      from throwsOwnD [OF throwsOwn_try Pair] Inl nf have "e \<noteq> Unprintable" by auto
      with Pair Inl show ?thesis by (cases e) (simp_all add: process_run)
    next
      case (Inr res)
      with Pair try_result_shape [of rt cfg input w res w'] show ?thesis
        by (auto simp: process_run)
    qed
  qed
next
  assume "processPixReceipt_try rt cfg input w = (Inl Unprintable, w')"
  then show "processPixReceipt rt cfg input w = (Inl (ErrorObj msgCannotConvert), w')"
    by (simp add: process_run)
next
  show "errorMessage (ErrorObj m) = Inr m" by (simp add: errorMessage_def)
next
  show "errorMessage (NonError s) = Inr s" by (simp add: errorMessage_def)
next
  show "errorMessage Unprintable = Inl (ErrorObj msgCannotConvert)" by (simp add: errorMessage_def)
qed

theorem C9_errors_become_results_witness:
  "processPixReceipt latin1 defaultConfig exampleInput throwingWorld =
     (Inr \<lparr> success = False, reason = Some reason_error,
            error = Some (ascii ''Erro na API Groq: 401 Unauthorized''),
            r_nome = None, r_mes = None, r_fileName = None \<rparr>,
      throwingWorld\<lparr>calls := [GroqChat [0xFF, 0xD8] (ascii ''image/jpeg'')]\<rparr>)
   \<and> fst (processPixReceipt latin1 defaultConfig exampleInput filledWorld) =
       Inr \<lparr> success = False, reason = Some reason_error,
             error = Some (msgDuplicate (ascii ''Ana'') (ascii ''Fevereiro'')
                             (ascii ''Comprovantes!C2'') (ascii '' '')),
             r_nome = None, r_mes = None, r_fileName = None \<rparr>
   \<and> (\<exists>r. fst (processPixReceipt latin1 defaultConfig exampleInput exampleWorld) = Inr r)"
proof -
  let ?mime = "ascii ''image/jpeg''"
  let ?read = "GroqChat [0xFF, 0xD8] ?mime"
  let ?t = "ErrorObj (ascii ''Erro na API Groq: 401 Unauthorized'')"
  have mi: "?mime = (case in_mimeType exampleInput of None \<Rightarrow> ascii ''image/jpeg'' | Some m \<Rightarrow> m)"
    by (simp add: exampleInput_def)
  have t: "read_image latin1 (ImageBuffer (in_imageBuffer exampleInput)) ?mime throwingWorld =
             (Inl ?t, throwingWorld\<lparr>calls := [?read]\<rparr>)"
    by (simp add: read_image_buffer_run throwingWorld_def exampleWorld_def exampleInput_def
        latin1_def latin1_lower_unit_def ascii_def)
  let ?w1 = "filledWorld\<lparr>calls := calls filledWorld @ [GroqChat (in_imageBuffer exampleInput) ?mime]\<rparr>"
  let ?w' = "?w1\<lparr>calls := calls ?w1 @
               [SheetsGet (ascii ''sheet-1'') (ascii ''Comprovantes!A2:A29''),
                SheetsGet (ascii ''sheet-1'') (ascii ''Comprovantes!B1:L1''),
                SheetsGet (ascii ''sheet-1'') (ascii ''Comprovantes!C2'')]\<rparr>"
  let ?m = "msgDuplicate (ascii ''Ana'') (ascii ''Fevereiro'') (ascii ''Comprovantes!C2'') (ascii '' '')"
  let ?e = "ErrorObj ?m"
  have c: "read_image latin1 (ImageBuffer (in_imageBuffer exampleInput)) ?mime filledWorld =
             (Inr (ascii ''ANA''), ?w1)"
    by (rule example_read) (simp_all add: filledWorld_def exampleWorld_def)
  have ne: "ascii ''ANA'' \<noteq> naoEPix" by (simp add: naoEPix_def ascii_def)
  have mo: "getCurrentMonthName latin1 ?w1 = (Inr (ascii ''Fevereiro''), ?w1)"
    by (rule month_example) (simp add: filledWorld_def exampleWorld_def)
  have p: "planilha latin1 defaultConfig (capitalizeName latin1 (ascii ''ANA''))
        (Upload \<lparr> up_fileName = nomeFormatado (capitalizeName latin1 (ascii ''ANA''))
                                  (ascii ''Fevereiro'') (in_extension exampleInput),
                  up_buffer = in_imageBuffer exampleInput, up_mimeType = Some ?mime \<rparr>)
        (Some (ascii ''Fevereiro'')) None ?w1 = (Inl ?e, ?w')"
    unfolding capitalize_ana by (rule planilha_filled) (simp_all add: filled_cells)
  have nf: "\<forall>n. faults exampleWorld n \<noteq> Some Unprintable" by (simp add: example_cells)
  note inst = C9_errors_become_results [where rt = latin1 and cfg = defaultConfig
      and input = exampleInput and mime = ?mime and nome = "ascii ''ANA''"
      and mes = "ascii ''Fevereiro''"]
  from inst [where w = throwingWorld and e = ?t and w' = "throwingWorld\<lparr>calls := [?read]\<rparr>"] mi t
  have 1: "processPixReceipt latin1 defaultConfig exampleInput throwingWorld =
     (Inr \<lparr> success = False, reason = Some reason_error,
            error = Some (ascii ''Erro na API Groq: 401 Unauthorized''),
            r_nome = None, r_mes = None, r_fileName = None \<rparr>,
      throwingWorld\<lparr>calls := [?read]\<rparr>)"
    by blast
  from inst [where w = filledWorld and e = ?e and w' = ?w' and ?w1.0 = ?w1 and msg = ?m] mi c ne mo p
  have 2: "processPixReceipt latin1 defaultConfig exampleInput filledWorld =
     (Inr \<lparr> success = False, reason = Some reason_error, error = Some ?m,
            r_nome = None, r_mes = None, r_fileName = None \<rparr>, ?w')"
    by blast
  from inst [where w = exampleWorld] nf
  have 3: "\<exists>r. fst (processPixReceipt latin1 defaultConfig exampleInput exampleWorld) = Inr r"
    by blast
  from 1 2 3 show ?thesis by simp
qed

text \<open>
  C9 as stated fails when a service throws a value that has no string conversion: the
  first read of the spreadsheet throws one, \<open>planilha\<close> throws it again, the \<open>catch\<close> of
  \<open>processPixReceipt\<close> calls \<open>String(error)\<close>, which throws a \<open>TypeError\<close>, and the
  caller receives that exception and no result.
\<close>

theorem C9_unprintable_counterexample:
  "faults unprintableWorld 1 = Some Unprintable
   \<and> errorMessage Unprintable = Inl (ErrorObj msgCannotConvert)
   \<and> processPixReceipt latin1 defaultConfig exampleInput unprintableWorld =
       (Inl (ErrorObj msgCannotConvert),
        unprintableWorld\<lparr>calls :=
          [GroqChat [0xFF, 0xD8] (ascii ''image/jpeg''),
           SheetsGet (ascii ''sheet-1'') (ascii ''Comprovantes!A2:A29''),
           SheetsGet (ascii ''sheet-1'') (ascii ''Comprovantes!B1:L1'')]\<rparr>)
   \<and> (\<nexists>r. fst (processPixReceipt latin1 defaultConfig exampleInput unprintableWorld) = Inr r)"
proof -
  let ?mime = "ascii ''image/jpeg''"
  let ?w1 = "unprintableWorld\<lparr>calls := calls unprintableWorld @
               [GroqChat (in_imageBuffer exampleInput) ?mime]\<rparr>"
  let ?w2 = "?w1\<lparr>calls := calls ?w1 @
               [SheetsGet (ascii ''sheet-1'') (ascii ''Comprovantes!A2:A29''),
                SheetsGet (ascii ''sheet-1'') (ascii ''Comprovantes!B1:L1'')]\<rparr>"
  have u: "faults unprintableWorld = (\<lambda>n. if n = 1 then Some Unprintable else None)"
    "calls unprintableWorld = []" "groqAnswer unprintableWorld = (\<lambda>_ _. Some (ascii ''ANA''))"
    "monthLong unprintableWorld = ascii ''fevereiro''"
    by (simp_all add: unprintableWorld_def exampleWorld_def)
  have mi: "(case in_mimeType exampleInput of None \<Rightarrow> ascii ''image/jpeg'' | Some m \<Rightarrow> m) = ?mime"
    by (simp add: exampleInput_def)
  have c: "read_image latin1 (ImageBuffer (in_imageBuffer exampleInput)) ?mime unprintableWorld =
             (Inr (ascii ''ANA''), ?w1)"
    by (rule example_read) (simp_all add: u)
  have ne: "ascii ''ANA'' \<noteq> naoEPix" by (simp add: naoEPix_def ascii_def)
  have mo: "getCurrentMonthName latin1 ?w1 = (Inr (ascii ''Fevereiro''), ?w1)"
    by (rule month_example) (simp add: u)
  have loc: "planilha_locate latin1 defaultConfig (ascii ''Ana'') (ascii ''Fevereiro'') ?w1 =
               (Inl Unprintable, ?w2)"
    unfolding planilha_locate_def nameRange_default headerRange_default
    by (simp add: bindIO_def promiseAll2_def sheetsGet_run u sheet_default ascii_def
        defaultConfig_def [THEN arg_cong [of _ _ sheetName], simplified])
  have p: "planilha latin1 defaultConfig (ascii ''Ana'') (Upload receipt)
              (Some (ascii ''Fevereiro'')) None ?w1 = (Inl Unprintable, ?w2)" for receipt
    using default_configured
    by (simp add: planilha_def bindIO_def args_upload getAuthClient_def returnIO_def loc)
  have t: "processPixReceipt_try latin1 defaultConfig exampleInput unprintableWorld =
             (Inl Unprintable, ?w2)"
    unfolding processPixReceipt_try_def Let_def bindIO_def mi
    by (simp add: c ne mo capitalize_ana p)
  have 1: "processPixReceipt latin1 defaultConfig exampleInput unprintableWorld =
             (Inl (ErrorObj msgCannotConvert), ?w2)"
    by (simp add: process_run t)
  have 2: "?w2 = unprintableWorld\<lparr>calls :=
          [GroqChat [0xFF, 0xD8] (ascii ''image/jpeg''),
           SheetsGet (ascii ''sheet-1'') (ascii ''Comprovantes!A2:A29''),
           SheetsGet (ascii ''sheet-1'') (ascii ''Comprovantes!B1:L1'')]\<rparr>"
    by (simp add: u exampleInput_def)
  show ?thesis unfolding 1 2 by (simp add: u errorMessage_def)
qed

end
